theory Spec2Isabelle
  imports Complex_Main
begin

section \<open>Numbers\<close>

text \<open>
  A JavaScript number is modelled by the real it denotes; NaN and the infinities are not
  values of the model. Comparison is the mathematical one, and the arithmetic operators
  round as IEEE 754 binary64 does (section below). The string enumerations of the zod
  schema are datatypes. A template string is modelled by a constructor that carries the
  interpolated values.
\<close>

section \<open>Double-precision arithmetic\<close>

text \<open>
  \<open>fl\<close> rounds a real to the nearest double, ties to the even significand: a nonzero \<open>x\<close>
  with \<open>2 ^ e \<le> |x| < 2 ^ (e + 1)\<close> is rounded to a multiple of \<open>2 ^ (e - 52)\<close>, and to a
  multiple of \<open>2 ^ (- 1074)\<close> in the subnormal range. \<open>+\<close>, \<open>-\<close> and \<open>*\<close> of JavaScript are
  the exact operation followed by \<open>fl\<close>. The exponent has no upper bound here: a result
  beyond the largest double, which JavaScript replaces by an infinity, is outside the model.
\<close>

definition pow2 :: "int \<Rightarrow> real" where
  "pow2 k = (if 0 \<le> k then 2 ^ nat k else 1 / 2 ^ nat (- k))"

definition binade :: "real \<Rightarrow> int" where
  "binade x = \<lfloor>log 2 \<bar>x\<bar>\<rfloor>"

definition ulp :: "real \<Rightarrow> real" where
  "ulp x = pow2 (max (binade x) (- 1022) - 52)"

definition round_even :: "real \<Rightarrow> int" where
  "round_even y =
     (let f = \<lfloor>y\<rfloor>; d = y - of_int f
      in if d < 1 / 2 then f else if d > 1 / 2 then f + 1 else if even f then f else f + 1)"

definition fl :: "real \<Rightarrow> real" where
  "fl x = (if x = 0 then 0 else ulp x * of_int (round_even (x / ulp x)))"

definition is_double :: "real \<Rightarrow> bool" where
  "is_double x = (fl x = x)"

definition fadd :: "real \<Rightarrow> real \<Rightarrow> real" where
  "fadd x y = fl (x + y)"

definition fsub :: "real \<Rightarrow> real \<Rightarrow> real" where
  "fsub x y = fl (x - y)"

definition fmul :: "real \<Rightarrow> real \<Rightarrow> real" where
  "fmul x y = fl (x * y)"

section \<open>Strategy DSL (schemas)\<close>

datatype ConditionType = Price_below | Price_above | Funding_below | Funding_above | Volatility_above

datatype ActionType = Swap

datatype Direction = Buy | Sell

datatype ApprovalMode = Auto | Manual

record Condition =
  cond_type :: ConditionType
  cond_value :: real

record Action =
  action_type :: ActionType
  amount_usdc :: real
  direction :: Direction

record Controls =
  max_slippage_bps :: real
  approval_mode :: ApprovalMode
  expires_in_minutes :: real

record StrategyDSL =
  pair :: string
  conditions :: "Condition list"
  actions :: "Action list"
  controls :: Controls

text \<open>
  The issues \<open>StrategyDSLSchema.safeParse\<close> reports on a value that has the shape of a
  strategy (every field present, with the right JavaScript type and enumeration member).
  Values of another shape are outside the input type of this model; the schema rejects
  them too. Positions are indices into the array.
\<close>

datatype issue =
    PairTooShort
  | ConditionsTooFew
  | ConditionValueNotPositive nat
  | ActionsTooFew
  | ActionAmountNotPositive nat
  | SlippageNotInteger
  | SlippageBelowMin
  | SlippageAboveMax
  | ExpiryNotInteger
  | ExpiryNotPositive

text \<open>\<open>z.number().int()\<close> accepts the safe integers of JavaScript.\<close>

definition is_integer :: "real \<Rightarrow> bool" where
  "is_integer x = (of_int \<lfloor>x\<rfloor> = x \<and> \<bar>x\<bar> \<le> 9007199254740991)"

definition ConditionSchema_issues :: "nat \<Rightarrow> Condition \<Rightarrow> issue list" where
  "ConditionSchema_issues i c = (if cond_value c > 0 then [] else [ConditionValueNotPositive i])"

definition ActionSchema_issues :: "nat \<Rightarrow> Action \<Rightarrow> issue list" where
  "ActionSchema_issues i a = (if amount_usdc a > 0 then [] else [ActionAmountNotPositive i])"

text \<open>A number that fails \<open>.int()\<close> gets that issue only: the later checks of the field are skipped.\<close>

definition ControlsSchema_issues :: "Controls \<Rightarrow> issue list" where
  "ControlsSchema_issues c =
     (if \<not> is_integer (max_slippage_bps c) then [SlippageNotInteger]
      else (if max_slippage_bps c \<ge> 1 then [] else [SlippageBelowMin])
           @ (if max_slippage_bps c \<le> 500 then [] else [SlippageAboveMax]))
     @ (if \<not> is_integer (expires_in_minutes c) then [ExpiryNotInteger]
        else (if expires_in_minutes c > 0 then [] else [ExpiryNotPositive]))"

definition StrategyDSLSchema_issues :: "StrategyDSL \<Rightarrow> issue list" where
  "StrategyDSLSchema_issues s =
     (if length (pair s) \<ge> 1 then [] else [PairTooShort])
     @ (if length (conditions s) \<ge> 1 then [] else [ConditionsTooFew])
     @ concat (map (\<lambda>(i, c). ConditionSchema_issues i c) (enumerate 0 (conditions s)))
     @ (if length (actions s) \<ge> 1 then [] else [ActionsTooFew])
     @ concat (map (\<lambda>(i, a). ActionSchema_issues i a) (enumerate 0 (actions s)))
     @ ControlsSchema_issues (controls s)"

definition StrategyDSLSchema_safeParse :: "StrategyDSL \<Rightarrow> issue list + StrategyDSL" where
  "StrategyDSLSchema_safeParse dsl =
     (let issues = StrategyDSLSchema_issues dsl
      in if issues = [] then Inr dsl else Inl issues)"

section \<open>Validation and enforcement layer (validateStrategy)\<close>

record ValidationLimits =
  allowed_pairs :: "string list"
  max_spend_usdc :: real
  limit_max_slippage_bps :: real

datatype validation_message =
    SchemaIssue issue
  | PairNotInAllowlist string "string list"
  | SlippageClamped real real
  | ActionAmountExceedsCap real real
  | ExpiryMustBePositive

record ValidationResult =
  valid :: bool
  strategy :: "StrategyDSL option"
  errors :: "validation_message list"
  clamped :: "validation_message list"

definition validateStrategy :: "StrategyDSL \<Rightarrow> ValidationLimits \<Rightarrow> ValidationResult" where
  "validateStrategy dsl limits =
     (case StrategyDSLSchema_safeParse dsl of
        Inl issues \<Rightarrow>
          \<lparr>valid = False, strategy = None, errors = map SchemaIssue issues, clamped = []\<rparr>
      | Inr parsed_data \<Rightarrow>
          let errors0 = [];
              clamped0 = [];
              strategy0 = parsed_data;
              errors1 =
                (if pair strategy0 \<notin> set (allowed_pairs limits)
                 then errors0 @ [PairNotInAllowlist (pair strategy0) (allowed_pairs limits)]
                 else errors0);
              over = (max_slippage_bps (controls strategy0) > limit_max_slippage_bps limits);
              clamped1 =
                (if over
                 then clamped0 @ [SlippageClamped (max_slippage_bps (controls strategy0))
                                    (limit_max_slippage_bps limits)]
                 else clamped0);
              strategy1 =
                (if over
                 then strategy0\<lparr>controls :=
                        (controls strategy0)\<lparr>max_slippage_bps := limit_max_slippage_bps limits\<rparr>\<rparr>
                 else strategy0);
              errors2 =
                foldl (\<lambda>errs action.
                         if amount_usdc action > max_spend_usdc limits
                         then errs @ [ActionAmountExceedsCap (amount_usdc action) (max_spend_usdc limits)]
                         else errs)
                  errors1 (actions strategy1);
              errors3 =
                (if expires_in_minutes (controls strategy1) \<le> 0
                 then errors2 @ [ExpiryMustBePositive]
                 else errors2)
          in if length errors3 > 0
             then \<lparr>valid = False, strategy = None, errors = errors3, clamped = clamped1\<rparr>
             else \<lparr>valid = True, strategy = Some strategy1, errors = [], clamped = clamped1\<rparr>)"

section \<open>Risk controls (checkRisk)\<close>

record RiskConfig =
  risk_max_spend_usdc :: real
  risk_max_slippage_bps :: real
  risk_allowed_pairs :: "string list"
  max_expires_minutes :: real

datatype violation =
    PairNotAllowed string
  | TotalSpendExceedsCap real real
  | SlippageExceedsMax real real
  | ExpiryExceedsMax real real

record RiskCheckResult =
  passed :: bool
  violations :: "violation list"

definition totalSpend :: "Action list \<Rightarrow> real" where
  "totalSpend as = foldl (\<lambda>sum a. fadd sum (amount_usdc a)) 0 as"

definition checkRisk :: "StrategyDSL \<Rightarrow> RiskConfig \<Rightarrow> RiskCheckResult" where
  "checkRisk s config =
     (let violations0 = [];
          violations1 =
            (if pair s \<notin> set (risk_allowed_pairs config)
             then violations0 @ [PairNotAllowed (pair s)] else violations0);
          total = totalSpend (actions s);
          violations2 =
            (if total > risk_max_spend_usdc config
             then violations1 @ [TotalSpendExceedsCap total (risk_max_spend_usdc config)]
             else violations1);
          violations3 =
            (if max_slippage_bps (controls s) > risk_max_slippage_bps config
             then violations2 @ [SlippageExceedsMax (max_slippage_bps (controls s))
                                   (risk_max_slippage_bps config)]
             else violations2);
          violations4 =
            (if expires_in_minutes (controls s) > max_expires_minutes config
             then violations3 @ [ExpiryExceedsMax (expires_in_minutes (controls s))
                                   (max_expires_minutes config)]
             else violations3)
      in \<lparr>passed = (length violations4 = 0), violations = violations4\<rparr>)"

fun is_expiry_violation :: "violation \<Rightarrow> bool" where
  "is_expiry_violation (ExpiryExceedsMax _ _) = True"
| "is_expiry_violation _ = False"

section \<open>Object store\<close>

text \<open>
  Arrays and ledger entries are JavaScript objects held by reference. The store is the list
  of all allocated objects, an address is an index into it, and allocation appends. A read
  at an address that holds no object of the expected kind yields the empty array or
  \<open>None\<close>; no reference of the program can point there.
\<close>

datatype PaymentStatus = Success | Failure

record PaymentRecord =
  tool :: string
  cost_usdc :: real
  tx_hash :: string
  timestamp :: string
  status :: PaymentStatus

datatype Decision = Proceed | Skip

datatype reason_text =
    Proceeding string real real
  | Skipping string real real

record ReasonCode =
  rc_tool :: string
  rc_cost_usdc :: real
  budget_remaining_usdc :: real
  decision :: Decision
  reason :: reason_text

type_synonym addr = nat

datatype obj =
    ArrayObj "addr list"
  | PaymentObj PaymentRecord
  | ReasonObj ReasonCode

type_synonym store = "obj list"

definition alloc :: "store \<Rightarrow> obj \<Rightarrow> store \<times> addr" where
  "alloc h ob = (h @ [ob], length h)"

definition array_at :: "store \<Rightarrow> addr \<Rightarrow> addr list" where
  "array_at h a =
     (if a < length h then (case h ! a of ArrayObj xs \<Rightarrow> xs | _ \<Rightarrow> []) else [])"

definition payment_at :: "store \<Rightarrow> addr \<Rightarrow> PaymentRecord option" where
  "payment_at h a =
     (if a < length h then (case h ! a of PaymentObj r \<Rightarrow> Some r | _ \<Rightarrow> None) else None)"

definition reason_at :: "store \<Rightarrow> addr \<Rightarrow> ReasonCode option" where
  "reason_at h a =
     (if a < length h then (case h ! a of ReasonObj r \<Rightarrow> Some r | _ \<Rightarrow> None) else None)"

definition array_push :: "store \<Rightarrow> addr \<Rightarrow> addr \<Rightarrow> store" where
  "array_push h a x = h[a := ArrayObj (array_at h a @ [x])]"

definition array_copy :: "store \<Rightarrow> addr \<Rightarrow> store \<times> addr" where
  "array_copy h a = alloc h (ArrayObj (array_at h a))"

definition read_payments :: "store \<Rightarrow> addr \<Rightarrow> PaymentRecord list" where
  "read_payments h a = List.map_filter (payment_at h) (array_at h a)"

definition read_reasons :: "store \<Rightarrow> addr \<Rightarrow> ReasonCode list" where
  "read_reasons h a = List.map_filter (reason_at h) (array_at h a)"

text \<open>Every reference held by the array at \<open>a\<close>, and \<open>a\<close> itself, is allocated.\<close>

definition allocated :: "store \<Rightarrow> addr \<Rightarrow> bool" where
  "allocated h a = (a < length h \<and> list_all (\<lambda>e. e < length h) (array_at h a))"

section \<open>Economic reasoning engine\<close>

record EconomicReasoningEngine =
  budgetRemaining :: real
  reasonCodes :: addr

definition new_EconomicReasoningEngine :: "store \<Rightarrow> real \<Rightarrow> store \<times> EconomicReasoningEngine" where
  "new_EconomicReasoningEngine h initialBudget =
     (let (h1, a) = alloc h (ArrayObj [])
      in (h1, \<lparr>budgetRemaining = initialBudget, reasonCodes = a\<rparr>))"

definition shouldPurchase ::
  "store \<Rightarrow> EconomicReasoningEngine \<Rightarrow> string \<Rightarrow> real \<Rightarrow> store \<times> EconomicReasoningEngine \<times> bool" where
  "shouldPurchase h this toolName costUsdc =
     (let canAfford = (budgetRemaining this \<ge> costUsdc);
          decision = (if canAfford then Proceed else Skip);
          reason = (if canAfford
                    then Proceeding toolName costUsdc (budgetRemaining this)
                    else Skipping toolName costUsdc (budgetRemaining this));
          (h1, r) = alloc h (ReasonObj \<lparr>rc_tool = toolName, rc_cost_usdc = costUsdc,
                                       budget_remaining_usdc = budgetRemaining this,
                                       decision = decision, reason = reason\<rparr>);
          h2 = array_push h1 (reasonCodes this) r
      in (h2, this, canAfford))"

definition recordSpend :: "EconomicReasoningEngine \<Rightarrow> real \<Rightarrow> EconomicReasoningEngine" where
  "recordSpend this amount = this\<lparr>budgetRemaining := fsub (budgetRemaining this) amount\<rparr>"

definition getBudgetRemaining :: "EconomicReasoningEngine \<Rightarrow> real" where
  "getBudgetRemaining this = budgetRemaining this"

definition getReasonCodes :: "store \<Rightarrow> EconomicReasoningEngine \<Rightarrow> store \<times> addr" where
  "getReasonCodes h this = array_copy h (reasonCodes this)"

section \<open>x402 payment client\<close>

datatype error =
    ToolRequestFailed nat
  | PaidToolRetryFailed nat
  | ParserHttpError nat
  | InvalidDSL "issue list"
  | BotNotFound string
  | BotDisabled string
  | EncryptionFailed
  | DecryptionFailed
  | RangeError
  | Aborted
  | ParserTimedOut nat
  | Rejected string

text \<open>
  An HTTP response: the status code and the value \<open>json()\<close> resolves with (\<open>None\<close> when
  the body is not JSON and \<open>json()\<close> rejects). \<open>fetch\<close> is a parameter: it maps the URL and
  the optional payment header to a response, or rejects.
\<close>

record 'a Response =
  resp_status :: nat
  resp_json :: "'a option"

definition ok :: "'a Response \<Rightarrow> bool" where
  "ok r = (200 \<le> resp_status r \<and> resp_status r \<le> 299)"

definition json :: "'a Response \<Rightarrow> error + 'a" where
  "json r = (case resp_json r of None \<Rightarrow> Inl (Rejected ''invalid JSON'') | Some v \<Rightarrow> Inr v)"

record X402PaymentClient =
  records :: addr

definition new_X402PaymentClient :: "store \<Rightarrow> store \<times> X402PaymentClient" where
  "new_X402PaymentClient h = (let (h1, a) = alloc h (ArrayObj []) in (h1, \<lparr>records = a\<rparr>))"

definition set_status :: "store \<Rightarrow> addr \<Rightarrow> PaymentStatus \<Rightarrow> store" where
  "set_status h a st =
     (case payment_at h a of None \<Rightarrow> h | Some r \<Rightarrow> h[a := PaymentObj (r\<lparr>status := st\<rparr>)])"

definition fetchWithPayment ::
  "(string \<Rightarrow> string option \<Rightarrow> error + 'a Response) \<Rightarrow> string \<Rightarrow>
   store \<Rightarrow> X402PaymentClient \<Rightarrow> string \<Rightarrow> (real \<Rightarrow> error + string) \<Rightarrow> real \<Rightarrow>
   store \<times> (error + 'a)" where
  "fetchWithPayment fetch now h this toolUrl signPayment toolCostUsdc =
     (case fetch toolUrl None of
        Inl e \<Rightarrow> (h, Inl e)
      | Inr firstResponse \<Rightarrow>
          if resp_status firstResponse = 402 then
            (case signPayment toolCostUsdc of
               Inl e \<Rightarrow> (h, Inl e)
             | Inr txHash \<Rightarrow>
                 let (h1, record) = alloc h (PaymentObj \<lparr>tool = toolUrl, cost_usdc = toolCostUsdc,
                                                         tx_hash = txHash, timestamp = now,
                                                         status = Success\<rparr>)
                 in (case fetch toolUrl (Some txHash) of
                       Inl e \<Rightarrow> (h1, Inl e)
                     | Inr retryResponse \<Rightarrow>
                         if \<not> ok retryResponse then
                           (let h2 = set_status h1 record Failure;
                                h3 = array_push h2 (records this) record
                            in (h3, Inl (PaidToolRetryFailed (resp_status retryResponse))))
                         else
                           (let h2 = array_push h1 (records this) record
                            in (h2, json retryResponse))))
          else if \<not> ok firstResponse then (h, Inl (ToolRequestFailed (resp_status firstResponse)))
          else (h, json firstResponse))"

definition getPaymentRecords :: "store \<Rightarrow> X402PaymentClient \<Rightarrow> store \<times> addr" where
  "getPaymentRecords h this = array_copy h (records this)"

definition getTotalSpent :: "store \<Rightarrow> X402PaymentClient \<Rightarrow> real" where
  "getTotalSpent h this =
     foldl (\<lambda>sum r. fadd sum (cost_usdc r)) 0
       (filter (\<lambda>r. status r = Success) (read_payments h (records this)))"

text \<open>What a caller reads through the array that a getter returns.\<close>

definition payment_log :: "store \<Rightarrow> X402PaymentClient \<Rightarrow> PaymentRecord list" where
  "payment_log h this = (let (h', r) = getPaymentRecords h this in read_payments h' r)"

definition reason_log :: "store \<Rightarrow> EconomicReasoningEngine \<Rightarrow> ReasonCode list" where
  "reason_log h this = (let (h', r) = getReasonCodes h this in read_reasons h' r)"

text \<open>
  What a caller can do to an array it holds a reference to: replace its contents
  (\<open>push\<close>, \<open>pop\<close>, \<open>splice\<close>, assignment to an index or to \<open>length\<close>), or assign to the
  fields of the entry at an index.
\<close>

datatype mutation =
    SetContents "addr list"
  | SetPaymentEntry nat PaymentRecord
  | SetReasonEntry nat ReasonCode

fun mutate :: "store \<Rightarrow> addr \<Rightarrow> mutation \<Rightarrow> store" where
  "mutate h a (SetContents xs) = h[a := ArrayObj xs]"
| "mutate h a (SetPaymentEntry i r) =
     (if i < length (array_at h a) \<and> payment_at h (array_at h a ! i) \<noteq> None
      then h[array_at h a ! i := PaymentObj r] else h)"
| "mutate h a (SetReasonEntry i r) =
     (if i < length (array_at h a) \<and> reason_at h (array_at h a ! i) \<noteq> None
      then h[array_at h a ! i := ReasonObj r] else h)"

section \<open>BITE encrypted intents\<close>

text \<open>
  The primitives of Node's \<open>crypto\<close>, \<open>Buffer\<close>, \<open>JSON\<close> and \<open>Date\<close> are parameters,
  gathered in one record. A primitive that can throw returns an option. Random values and
  the clock are read from the \<open>world\<close> record below.
\<close>

type_synonym bytes = "nat list"

record library =
  aes_256_gcm_encrypt :: "bytes \<Rightarrow> bytes \<Rightarrow> string \<Rightarrow> (bytes \<times> bytes) option"
  aes_256_gcm_decrypt :: "bytes \<Rightarrow> bytes \<Rightarrow> bytes \<Rightarrow> bytes \<Rightarrow> string option"
  sha256_hex :: "string \<Rightarrow> string"
  to_hex :: "bytes \<Rightarrow> string"
  from_hex :: "string \<Rightarrow> bytes"
  JSON_stringify :: "StrategyDSL \<Rightarrow> string"
  JSON_parse :: "string \<Rightarrow> StrategyDSL option"
  toISOString :: "real \<Rightarrow> string"

record PublicMetadata =
  pm_intent_id :: string
  budget_cap_usdc :: real
  pm_pair :: string
  expires_at :: string
  authorization_hash :: string

record EncryptedIntent =
  intent_id :: string
  encrypted_payload :: string
  iv :: string
  auth_tag :: string
  public_metadata :: PublicMetadata
  created_at :: string

text \<open>
  \<open>new Date(t).toISOString()\<close>: a time value beyond 8.64e15 ms from the epoch gives an invalid
  date, on which \<open>toISOString\<close> throws a RangeError.
\<close>

definition Date_toISOString :: "library \<Rightarrow> real \<Rightarrow> error + string" where
  "Date_toISOString lib t =
     (if \<bar>t\<bar> \<le> 8640000000000000 then Inr (toISOString lib t) else Inl RangeError)"

record BiteIntentHandler =
  key :: bytes

definition new_BiteIntentHandler :: "bytes option \<Rightarrow> bytes \<Rightarrow> BiteIntentHandler" where
  "new_BiteIntentHandler encryptionKey randomBytes =
     \<lparr>key = (case encryptionKey of Some k \<Rightarrow> k | None \<Rightarrow> randomBytes)\<rparr>"

definition encrypt ::
  "library \<Rightarrow> string \<Rightarrow> bytes \<Rightarrow> real \<Rightarrow> BiteIntentHandler \<Rightarrow> StrategyDSL \<Rightarrow> error + EncryptedIntent" where
  "encrypt lib uuidv4 randomIv dateNow this strat =
     (let intentId = uuidv4;
          plaintext = JSON_stringify lib strat
      in case aes_256_gcm_encrypt lib (key this) randomIv plaintext of
           None \<Rightarrow> Inl EncryptionFailed
         | Some (encrypted, authTag) \<Rightarrow>
             (case Date_toISOString lib
                     (fadd dateNow (fmul (expires_in_minutes (controls strat)) 60000)) of
                Inl e \<Rightarrow> Inl e
              | Inr expiresAt \<Rightarrow>
                  let total = foldl (\<lambda>sum a. fadd sum (amount_usdc a)) 0 (actions strat);
                      authorizationHash = sha256_hex lib (intentId @ to_hex lib encrypted)
                  in Inr \<lparr>intent_id = intentId,
                          encrypted_payload = to_hex lib encrypted,
                          iv = to_hex lib randomIv,
                          auth_tag = to_hex lib authTag,
                          public_metadata =
                            \<lparr>pm_intent_id = intentId, budget_cap_usdc = total,
                             pm_pair = pair strat, expires_at = expiresAt,
                             authorization_hash = authorizationHash\<rparr>,
                          created_at = toISOString lib dateNow\<rparr>))"

definition decrypt :: "library \<Rightarrow> BiteIntentHandler \<Rightarrow> EncryptedIntent \<Rightarrow> error + StrategyDSL" where
  "decrypt lib this intent =
     (let iv_bytes = from_hex lib (iv intent);
          authTag = from_hex lib (auth_tag intent);
          encrypted = from_hex lib (encrypted_payload intent)
      in case aes_256_gcm_decrypt lib (key this) iv_bytes authTag encrypted of
           None \<Rightarrow> Inl DecryptionFailed
         | Some decrypted \<Rightarrow>
             (case JSON_parse lib decrypted of
                None \<Rightarrow> Inl (Rejected ''JSON.parse'')
              | Some s \<Rightarrow> Inr s))"

section \<open>Trade executor\<close>

datatype execution_error = NoActions | UnsupportedActionType ActionType | NotImplemented

record ExecutionResult =
  success :: bool
  exec_tx_hash :: "string option"
  exec_error :: "execution_error option"

record TradeExecutor =
  simulate :: bool

definition new_TradeExecutor :: "bool option \<Rightarrow> TradeExecutor" where
  "new_TradeExecutor opt = \<lparr>simulate = (case opt of Some b \<Rightarrow> b | None \<Rightarrow> True)\<rparr>"

definition execute :: "library \<Rightarrow> string \<Rightarrow> TradeExecutor \<Rightarrow> StrategyDSL \<Rightarrow> ExecutionResult" where
  "execute lib randomHex this strat =
     (if length (actions strat) = 0
      then \<lparr>success = False, exec_tx_hash = None, exec_error = Some NoActions\<rparr>
      else case find (\<lambda>a. action_type a \<noteq> Swap) (actions strat) of
             Some a \<Rightarrow> \<lparr>success = False, exec_tx_hash = None,
                        exec_error = Some (UnsupportedActionType (action_type a))\<rparr>
           | None \<Rightarrow>
               if simulate this
               then \<lparr>success = True,
                     exec_tx_hash = Some (''0x'' @ sha256_hex lib (JSON_stringify lib strat @ randomHex)),
                     exec_error = None\<rparr>
               else \<lparr>success = False, exec_tx_hash = None, exec_error = Some NotImplemented\<rparr>)"

section \<open>Parser adapter\<close>

record ParserMetadata =
  model :: string
  confidence :: real

record ParserOutput =
  strategy_dsl :: StrategyDSL
  explanation :: string
  risk_notes :: "string list"
  parser_metadata :: ParserMetadata

record ParserContext =
  ctx_allowed_pairs :: "string list"
  ctx_max_spend_usdc_hard :: real
  ctx_max_slippage_bps_hard :: real

record ParserInput =
  user_prompt :: string
  parser_context :: ParserContext

record ParserAdapter =
  endpoint :: string
  timeoutMs :: nat

definition new_ParserAdapter :: "string \<Rightarrow> nat option \<Rightarrow> ParserAdapter" where
  "new_ParserAdapter ep timeout_ms =
     \<lparr>endpoint = ep, timeoutMs = (case timeout_ms of Some t \<Rightarrow> t | None \<Rightarrow> 10000)\<rparr>"

definition parse ::
  "(string \<Rightarrow> ParserInput \<Rightarrow> error + ParserOutput Response) \<Rightarrow> ParserAdapter \<Rightarrow> ParserInput \<Rightarrow>
   error + ParserOutput" where
  "parse post this input =
     (case post (endpoint this) input of
        Inl e \<Rightarrow> (if e = Aborted then Inl (ParserTimedOut (timeoutMs this)) else Inl e)
      | Inr response \<Rightarrow>
          if \<not> ok response then Inl (ParserHttpError (resp_status response))
          else (case json response of
                  Inl e \<Rightarrow> Inl e
                | Inr body \<Rightarrow>
                    (case StrategyDSLSchema_safeParse (strategy_dsl body) of
                       Inl issues \<Rightarrow> Inl (InvalidDSL issues)
                     | Inr _ \<Rightarrow> Inr body)))"

section \<open>Receipt logger\<close>

datatype ReceiptStatus = RExecuted | RAborted | RExpired

record ReceiptParserOutput =
  r_explanation :: string
  r_risk_notes :: "string list"
  r_parser_metadata :: ParserMetadata

record ExecutionReceipt =
  receipt_intent_id :: string
  raw_user_prompt :: string
  parser_output :: ReceiptParserOutput
  validated_strategy :: StrategyDSL
  encrypted_intent_hash :: string
  payments :: "PaymentRecord list"
  reason_codes :: "ReasonCode list"
  conditions_met :: bool
  execution_tx_hash :: "string option"
  total_spend_usdc :: real
  receipt_status :: ReceiptStatus
  receipt_timestamp :: string

record ReceiptParams =
  intentId :: string
  rawPrompt :: string
  parserOutput :: ParserOutput
  validatedStrategy :: StrategyDSL
  encryptedIntentPayload :: string
  p_payments :: "PaymentRecord list"
  reasonCodeList :: "ReasonCode list"
  conditionsMet :: bool
  executionTxHash :: "string option"
  totalSpendUsdc :: real
  p_status :: ReceiptStatus

definition buildReceipt :: "library \<Rightarrow> real \<Rightarrow> ReceiptParams \<Rightarrow> ExecutionReceipt" where
  "buildReceipt lib dateNow params =
     \<lparr>receipt_intent_id = intentId params,
      raw_user_prompt = rawPrompt params,
      parser_output =
        \<lparr>r_explanation = explanation (parserOutput params),
         r_risk_notes = risk_notes (parserOutput params),
         r_parser_metadata = parser_metadata (parserOutput params)\<rparr>,
      validated_strategy = validatedStrategy params,
      encrypted_intent_hash = sha256_hex lib (encryptedIntentPayload params),
      payments = p_payments params,
      reason_codes = reasonCodeList params,
      conditions_met = conditionsMet params,
      execution_tx_hash = executionTxHash params,
      total_spend_usdc = totalSpendUsdc params,
      receipt_status = p_status params,
      receipt_timestamp = toISOString lib dateNow\<rparr>"

section \<open>Agent workflow orchestrator\<close>

record WorkflowConfig =
  parser_endpoint :: string
  parser_timeout_ms :: "nat option"
  cfg_allowed_pairs :: "string list"
  max_spend_usdc_hard :: real
  max_slippage_bps_hard :: real
  budget_usdc :: real
  polling_interval_ms :: "nat option"
  polling_timeout_ms :: "nat option"

record WorkflowResult =
  receipt :: ExecutionReceipt
  encryptedIntent :: "EncryptedIntent option"

record AgentWorkflow =
  config :: WorkflowConfig
  parser :: ParserAdapter
  bite :: BiteIntentHandler
  executor :: TradeExecutor

text \<open>
  Everything a run reads from outside the process: the library primitives, the parser
  endpoint, the random values and the clock.
\<close>

record world =
  lib :: library
  http_post :: "string \<Rightarrow> ParserInput \<Rightarrow> error + ParserOutput Response"
  uuidv4 :: string
  random_key :: bytes
  random_iv :: bytes
  random_hex :: string
  date_now :: real
  math_random :: real

definition new_AgentWorkflow :: "world \<Rightarrow> WorkflowConfig \<Rightarrow> bytes option \<Rightarrow> AgentWorkflow" where
  "new_AgentWorkflow w cfg encryptionKey =
     \<lparr>config = cfg,
      parser = new_ParserAdapter (parser_endpoint cfg) (parser_timeout_ms cfg),
      bite = new_BiteIntentHandler encryptionKey (random_key w),
      executor = new_TradeExecutor (Some True)\<rparr>"

text \<open>The three argument objects that \<open>run\<close> builds from its configuration.\<close>

definition run_parser_input :: "AgentWorkflow \<Rightarrow> string \<Rightarrow> ParserInput" where
  "run_parser_input this userPrompt =
     \<lparr>user_prompt = userPrompt,
      parser_context =
        \<lparr>ctx_allowed_pairs = cfg_allowed_pairs (config this),
         ctx_max_spend_usdc_hard = max_spend_usdc_hard (config this),
         ctx_max_slippage_bps_hard = max_slippage_bps_hard (config this)\<rparr>\<rparr>"

definition run_limits :: "AgentWorkflow \<Rightarrow> ValidationLimits" where
  "run_limits this =
     \<lparr>allowed_pairs = cfg_allowed_pairs (config this),
      max_spend_usdc = max_spend_usdc_hard (config this),
      limit_max_slippage_bps = max_slippage_bps_hard (config this)\<rparr>"

definition run_risk_config :: "AgentWorkflow \<Rightarrow> StrategyDSL \<Rightarrow> RiskConfig" where
  "run_risk_config this decrypted =
     \<lparr>risk_max_spend_usdc = max_spend_usdc_hard (config this),
      risk_max_slippage_bps = max_slippage_bps_hard (config this),
      risk_allowed_pairs = cfg_allowed_pairs (config this),
      max_expires_minutes = expires_in_minutes (controls decrypted)\<rparr>"

text \<open>The collaborators a run invokes, in the order it invokes them.\<close>

datatype call =
    CallParse | CallValidate | CallEncrypt | CallCheckConditions
  | CallDecrypt | CallCheckRisk | CallExecute | CallBuildReceipt

definition run ::
  "world \<Rightarrow> AgentWorkflow \<Rightarrow> string \<Rightarrow> (StrategyDSL \<Rightarrow> error + bool) \<Rightarrow>
   call list \<times> (error + WorkflowResult)" where
  "run w this userPrompt checkConditions =
     (case parse (http_post w) (parser this) (run_parser_input this userPrompt) of
        Inl e \<Rightarrow> ([CallParse], Inl e)
      | Inr parserOut \<Rightarrow>
          let validation = validateStrategy (strategy_dsl parserOut) (run_limits this)
          in (case (valid validation, strategy validation) of
                (True, Some strat) \<Rightarrow>
                  (case encrypt (lib w) (uuidv4 w) (random_iv w) (date_now w) (bite this) strat of
                     Inl e \<Rightarrow> ([CallParse, CallValidate, CallEncrypt], Inl e)
                   | Inr encIntent \<Rightarrow>
                       (case checkConditions strat of
                          Inl e \<Rightarrow> ([CallParse, CallValidate, CallEncrypt, CallCheckConditions], Inl e)
                        | Inr False \<Rightarrow>
                            ([CallParse, CallValidate, CallEncrypt, CallCheckConditions, CallBuildReceipt],
                             Inr \<lparr>receipt = buildReceipt (lib w) (date_now w)
                                    \<lparr>intentId = intent_id encIntent, rawPrompt = userPrompt,
                                     parserOutput = parserOut, validatedStrategy = strat,
                                     encryptedIntentPayload = encrypted_payload encIntent,
                                     p_payments = [], reasonCodeList = [], conditionsMet = False,
                                     executionTxHash = None, totalSpendUsdc = 0,
                                     p_status = RExpired\<rparr>,
                                  encryptedIntent = Some encIntent\<rparr>)
                        | Inr True \<Rightarrow>
                            (case decrypt (lib w) (bite this) encIntent of
                               Inl e \<Rightarrow>
                                 ([CallParse, CallValidate, CallEncrypt, CallCheckConditions, CallDecrypt],
                                  Inl e)
                             | Inr decrypted \<Rightarrow>
                                 let riskCheck = checkRisk decrypted (run_risk_config this decrypted)
                                 in if \<not> passed riskCheck
                                    then ([CallParse, CallValidate, CallEncrypt, CallCheckConditions,
                                           CallDecrypt, CallCheckRisk, CallBuildReceipt],
                                          Inr \<lparr>receipt = buildReceipt (lib w) (date_now w)
                                                 \<lparr>intentId = intent_id encIntent, rawPrompt = userPrompt,
                                                  parserOutput = parserOut, validatedStrategy = strat,
                                                  encryptedIntentPayload = encrypted_payload encIntent,
                                                  p_payments = [], reasonCodeList = [],
                                                  conditionsMet = True, executionTxHash = None,
                                                  totalSpendUsdc = 0, p_status = RAborted\<rparr>,
                                               encryptedIntent = Some encIntent\<rparr>)
                                    else (let executionResult =
                                                execute (lib w) (random_hex w) (executor this) decrypted;
                                              total = foldl (\<lambda>sum a. fadd sum (amount_usdc a)) 0
                                                        (actions decrypted)
                                          in ([CallParse, CallValidate, CallEncrypt, CallCheckConditions,
                                               CallDecrypt, CallCheckRisk, CallExecute, CallBuildReceipt],
                                              Inr \<lparr>receipt = buildReceipt (lib w) (date_now w)
                                                     \<lparr>intentId = intent_id encIntent,
                                                      rawPrompt = userPrompt,
                                                      parserOutput = parserOut,
                                                      validatedStrategy = strat,
                                                      encryptedIntentPayload = encrypted_payload encIntent,
                                                      p_payments = [], reasonCodeList = [],
                                                      conditionsMet = True,
                                                      executionTxHash = exec_tx_hash executionResult,
                                                      totalSpendUsdc = total,
                                                      p_status = (if success executionResult
                                                                  then RExecuted else RAborted)\<rparr>,
                                                   encryptedIntent = Some encIntent\<rparr>)))))
              | _ \<Rightarrow>
                  ([CallParse, CallValidate, CallBuildReceipt],
                   Inr \<lparr>receipt = buildReceipt (lib w) (date_now w)
                          \<lparr>intentId = ''none'', rawPrompt = userPrompt, parserOutput = parserOut,
                           validatedStrategy = strategy_dsl parserOut,
                           encryptedIntentPayload = [],
                           p_payments = [], reasonCodeList = [], conditionsMet = False,
                           executionTxHash = None, totalSpendUsdc = 0, p_status = RAborted\<rparr>,
                        encryptedIntent = None\<rparr>)))"

section \<open>Trading dashboard\<close>

datatype TradeStatus = Pending | Monitoring | Executed | Failed | Expired

record TradeRequest =
  trade_id :: string
  trade_user_prompt :: string
  bot_name :: string
  submitted_at :: string
  trade_status :: TradeStatus
  trade_result :: "WorkflowResult option"

record BotConfig =
  name :: string
  bot_endpoint :: string
  apiKey :: "string option"
  bot_timeout_ms :: "nat option"
  enabled :: bool

text \<open>
  The trades of the dashboard are objects held in a \<open>Map\<close> by trade id; a trade is also
  referenced by the activation of \<open>startMonitoring\<close> that was started for it. Trade ids
  are taken to be distinct, so the entry of the map at an id is that object. The field
  \<open>awaiting\<close> is not a field of the class: it lists the activations of \<open>startMonitoring\<close>
  that are suspended at \<open>await workflow.run(...)\<close>, each with its trade id, prompt and bot
  endpoint. Of the dashboard's configuration only the \<open>WorkflowConfig\<close> part is ever read.
\<close>

record TradingDashboard =
  dashboard_config :: WorkflowConfig
  bots :: "string \<rightharpoonup> BotConfig"
  trades :: "string \<rightharpoonup> TradeRequest"
  monitoringIntervals :: "string \<rightharpoonup> nat"
  awaiting :: "(string \<times> string \<times> string) list"

definition new_TradingDashboard :: "WorkflowConfig \<Rightarrow> TradingDashboard" where
  "new_TradingDashboard cfg =
     \<lparr>dashboard_config = cfg, bots = Map.empty, trades = Map.empty,
      monitoringIntervals = Map.empty, awaiting = []\<rparr>"

definition registerBot :: "TradingDashboard \<Rightarrow> BotConfig \<Rightarrow> TradingDashboard" where
  "registerBot this cfg = this\<lparr>bots := (bots this)(name cfg \<mapsto> cfg)\<rparr>"

definition stopMonitoring :: "TradingDashboard \<Rightarrow> string \<Rightarrow> TradingDashboard" where
  "stopMonitoring this tradeId =
     (case monitoringIntervals this tradeId of
        Some interval \<Rightarrow> this\<lparr>monitoringIntervals := (monitoringIntervals this)(tradeId := None)\<rparr>
      | None \<Rightarrow> this)"

definition set_trade_status :: "TradingDashboard \<Rightarrow> string \<Rightarrow> TradeStatus \<Rightarrow> TradingDashboard" where
  "set_trade_status this tradeId st =
     (case trades this tradeId of
        None \<Rightarrow> this
      | Some trade \<Rightarrow> this\<lparr>trades := (trades this)(tradeId \<mapsto> trade\<lparr>trade_status := st\<rparr>)\<rparr>)"

definition set_trade_result :: "TradingDashboard \<Rightarrow> string \<Rightarrow> WorkflowResult \<Rightarrow> TradingDashboard" where
  "set_trade_result this tradeId res =
     (case trades this tradeId of
        None \<Rightarrow> this
      | Some trade \<Rightarrow> this\<lparr>trades := (trades this)(tradeId \<mapsto> trade\<lparr>trade_result := Some res\<rparr>)\<rparr>)"

text \<open>\<open>startMonitoring\<close> up to its suspension at \<open>await workflow.run(...)\<close>.\<close>

definition startMonitoring_begin ::
  "TradingDashboard \<Rightarrow> string \<Rightarrow> string \<Rightarrow> string \<Rightarrow> TradingDashboard" where
  "startMonitoring_begin this tradeId userPrompt botEndpoint =
     (case trades this tradeId of
        None \<Rightarrow> this
      | Some trade \<Rightarrow>
          let this1 = set_trade_status this tradeId Monitoring
          in this1\<lparr>awaiting := awaiting this1 @ [(tradeId, userPrompt, botEndpoint)]\<rparr>)"

text \<open>The workflow run that the suspended activation waits for.\<close>

definition startMonitoring_run ::
  "world \<Rightarrow> TradingDashboard \<Rightarrow> string \<Rightarrow> string \<Rightarrow> call list \<times> (error + WorkflowResult)" where
  "startMonitoring_run w this userPrompt botEndpoint =
     (let workflowConfig = (dashboard_config this)\<lparr>parser_endpoint := botEndpoint\<rparr>;
          workflow = new_AgentWorkflow w workflowConfig None;
          simulateConditionCheck = (\<lambda>strat. Inr (math_random w > 0.5))
      in run w workflow userPrompt simulateConditionCheck)"

text \<open>\<open>startMonitoring\<close> from the point where \<open>workflow.run\<close> has settled.\<close>

definition startMonitoring_resume ::
  "TradingDashboard \<Rightarrow> string \<Rightarrow> error + WorkflowResult \<Rightarrow> TradingDashboard" where
  "startMonitoring_resume this tradeId outcome =
     (let this0 = this\<lparr>awaiting := filter (\<lambda>(t, _, _). t \<noteq> tradeId) (awaiting this)\<rparr>
      in case outcome of
           Inr res \<Rightarrow>
             let this1 = set_trade_result this0 tradeId res;
                 this2 =
                   (if receipt_status (receipt res) = RExecuted then set_trade_status this1 tradeId Executed
                    else if receipt_status (receipt res) = RAborted then set_trade_status this1 tradeId Failed
                    else set_trade_status this1 tradeId Expired)
             in stopMonitoring this2 tradeId
         | Inl err \<Rightarrow> stopMonitoring (set_trade_status this0 tradeId Failed) tradeId)"

definition submitTrade ::
  "TradingDashboard \<Rightarrow> string \<Rightarrow> string \<Rightarrow> string \<Rightarrow> string \<Rightarrow>
   TradingDashboard \<times> (error + TradeRequest)" where
  "submitTrade this userPrompt botName generatedTradeId nowIso =
     (case bots this botName of
        None \<Rightarrow> (this, Inl (BotNotFound botName))
      | Some theBot \<Rightarrow>
          if \<not> enabled theBot then (this, Inl (BotDisabled botName))
          else
            (let tradeId = generatedTradeId;
                 trade = \<lparr>trade_id = tradeId, trade_user_prompt = userPrompt, bot_name = botName,
                          submitted_at = nowIso, trade_status = Pending, trade_result = None\<rparr>;
                 this1 = this\<lparr>trades := (trades this)(tradeId \<mapsto> trade)\<rparr>;
                 this2 = startMonitoring_begin this1 tradeId userPrompt (bot_endpoint theBot)
             in (this2, (case trades this2 tradeId of
                           Some t \<Rightarrow> Inr t
                         | None \<Rightarrow> Inr trade))))"

definition getTradeStatus :: "TradingDashboard \<Rightarrow> string \<Rightarrow> TradeRequest option" where
  "getTradeStatus this tradeId = trades this tradeId"

definition cancelTrade :: "TradingDashboard \<Rightarrow> string \<Rightarrow> TradingDashboard \<times> bool" where
  "cancelTrade this tradeId =
     (case trades this tradeId of
        None \<Rightarrow> (this, False)
      | Some trade \<Rightarrow>
          if trade_status trade = Pending \<or> trade_status trade = Monitoring
          then (set_trade_status (stopMonitoring this tradeId) tradeId Expired, True)
          else (this, False))"

section \<open>Fixtures\<close>

text \<open>The strategy, limits and configurations that the repository's tests use.\<close>

definition sampleStrategy :: StrategyDSL where
  "sampleStrategy =
     \<lparr>pair = ''ETH/USDC'',
      conditions = [\<lparr>cond_type = Price_below, cond_value = 3000\<rparr>],
      actions = [\<lparr>action_type = Swap, amount_usdc = 100, direction = Buy\<rparr>],
      controls = \<lparr>max_slippage_bps = 50, approval_mode = Auto, expires_in_minutes = 60\<rparr>\<rparr>"

definition defaultLimits :: ValidationLimits where
  "defaultLimits =
     \<lparr>allowed_pairs = [''ETH/USDC'', ''BTC/USDC''], max_spend_usdc = 500,
      limit_max_slippage_bps = 75\<rparr>"

definition defaultRiskConfig :: RiskConfig where
  "defaultRiskConfig =
     \<lparr>risk_max_spend_usdc = 500, risk_max_slippage_bps = 75,
      risk_allowed_pairs = [''ETH/USDC'', ''BTC/USDC''], max_expires_minutes = 1440\<rparr>"

definition wideSlippageStrategy :: StrategyDSL where
  "wideSlippageStrategy =
     sampleStrategy\<lparr>controls := (controls sampleStrategy)\<lparr>max_slippage_bps := 100\<rparr>\<rparr>"

definition twoSwapStrategy :: StrategyDSL where
  "twoSwapStrategy =
     sampleStrategy\<lparr>actions := [\<lparr>action_type = Swap, amount_usdc = 300, direction = Buy\<rparr>,
                                \<lparr>action_type = Swap, amount_usdc = 300, direction = Buy\<rparr>]\<rparr>"

text \<open>Two swaps of 250 and 250.00000000000003 USDC, both doubles.\<close>

definition nearCapStrategy :: StrategyDSL where
  "nearCapStrategy =
     sampleStrategy\<lparr>actions := [\<lparr>action_type = Swap, amount_usdc = 250, direction = Buy\<rparr>,
                                \<lparr>action_type = Swap, amount_usdc = 250 + 1 / 2 ^ 45,
                                  direction = Buy\<rparr>]\<rparr>"

text \<open>An expiry of 2 ^ 52 minutes, a safe integer.\<close>

definition distantExpiryStrategy :: StrategyDSL where
  "distantExpiryStrategy =
     sampleStrategy\<lparr>controls :=
       (controls sampleStrategy)\<lparr>expires_in_minutes := 4503599627370496\<rparr>\<rparr>"

text \<open>\<open>Date.now()\<close> at 2026-01-01T00:00:00Z.\<close>

definition clock_2026 :: real where
  "clock_2026 = 1767225600000"

definition dogeStrategy :: StrategyDSL where
  "dogeStrategy = sampleStrategy\<lparr>pair := ''DOGE/USDC''\<rparr>"

definition parserOutputFor :: "StrategyDSL \<Rightarrow> ParserOutput" where
  "parserOutputFor s =
     \<lparr>strategy_dsl = s,
      explanation = ''Buy ETH when price drops below $3000'',
      risk_notes = [''Market volatility is high''],
      parser_metadata = \<lparr>model = ''claude-custom'', confidence = 85 / 100\<rparr>\<rparr>"

definition defaultConfig :: WorkflowConfig where
  "defaultConfig =
     \<lparr>parser_endpoint = ''http://localhost:3000/parse'', parser_timeout_ms = Some 5000,
      cfg_allowed_pairs = [''ETH/USDC''], max_spend_usdc_hard = 500,
      max_slippage_bps_hard = 100, budget_usdc = 1000,
      polling_interval_ms = None, polling_timeout_ms = None\<rparr>"

definition testBot :: BotConfig where
  "testBot =
     \<lparr>name = ''test-bot'', bot_endpoint = ''http://example.com/parse'', apiKey = None,
      bot_timeout_ms = None, enabled = True\<rparr>"

text \<open>
  Stand-ins for the library primitives, used to run the scenarios below: the cipher keeps
  the plaintext and uses the key as its tag, the JSON codec carries the pair only, the hash
  is the identity.
\<close>

definition stub_library :: library where
  "stub_library =
     \<lparr>aes_256_gcm_encrypt = (\<lambda>k nonce p. Some (map of_char p, k)),
      aes_256_gcm_decrypt = (\<lambda>k nonce tag c. if tag = k then Some (map char_of c) else None),
      sha256_hex = (\<lambda>t. t),
      to_hex = map char_of,
      from_hex = map of_char,
      JSON_stringify = pair,
      JSON_parse = (\<lambda>t. Some (sampleStrategy\<lparr>pair := t\<rparr>)),
      toISOString = (\<lambda>t. ''1970-01-01T00:00:00.000Z'')\<rparr>"

definition stub_world :: "ParserOutput \<Rightarrow> real \<Rightarrow> world" where
  "stub_world body rnd =
     \<lparr>lib = stub_library,
      http_post = (\<lambda>url input. Inr \<lparr>resp_status = 200, resp_json = Some body\<rparr>),
      uuidv4 = ''00000000-0000-4000-8000-000000000000'',
      random_key = [7],
      random_iv = [1],
      random_hex = ''00'',
      date_now = 0,
      math_random = rnd\<rparr>"

text \<open>A paid tool: 402 without the payment header, and the given status with it.\<close>

definition paid_tool :: "nat \<Rightarrow> string \<Rightarrow> string option \<Rightarrow> error + unit Response" where
  "paid_tool retry_status url header =
     (case header of
        None \<Rightarrow> Inr \<lparr>resp_status = 402, resp_json = None\<rparr>
      | Some tx \<Rightarrow> Inr \<lparr>resp_status = retry_status, resp_json = Some ()\<rparr>)"

text \<open>A client that has made one successful payment of 0.5 USDC.\<close>

definition paid_client :: X402PaymentClient where
  "paid_client = snd (new_X402PaymentClient [])"

definition paid_store :: store where
  "paid_store =
     fst (fetchWithPayment (paid_tool 200) ''t1'' (fst (new_X402PaymentClient [])) paid_client
            ''https://api.example.com/a'' (\<lambda>amount. Inr ''0x1'') (1 / 2))"

definition flipped_record :: PaymentRecord where
  "flipped_record =
     \<lparr>tool = ''https://api.example.com/a'', cost_usdc = 1 / 2, tx_hash = ''0x1'',
      timestamp = ''t1'', status = Failure\<rparr>"

text \<open>The record that the test of the returned copy pushes onto it.\<close>

definition fake_record :: PaymentRecord where
  "fake_record =
     \<lparr>tool = ''fake'', cost_usdc = 999, tx_hash = ''0xfake'', timestamp = ''t3'',
      status = Success\<rparr>"

text \<open>A paid tool whose retry never gets a response: \<open>fetch\<close> rejects.\<close>

definition unreachable_tool :: "string \<Rightarrow> string option \<Rightarrow> error + unit Response" where
  "unreachable_tool url header =
     (case header of
        None \<Rightarrow> Inr \<lparr>resp_status = 402, resp_json = None\<rparr>
      | Some tx \<Rightarrow> Inl (Rejected ''fetch failed''))"

text \<open>A client that has made two successful payments, of 250.00000000000003 and 250 USDC.\<close>

definition sign_0x1 :: "real \<Rightarrow> error + string" where
  "sign_0x1 amount = Inr ''0x1''"

definition two_payment_store :: store where
  "two_payment_store =
     fst (fetchWithPayment (paid_tool 200) ''t2''
            (fst (fetchWithPayment (paid_tool 200) ''t1'' (fst (new_X402PaymentClient []))
                    paid_client ''https://api.example.com/a'' sign_0x1 (250 + 1 / 2 ^ 45)))
            paid_client ''https://api.example.com/b'' sign_0x1 250)"

definition sign_0x2 :: "real \<Rightarrow> error + string" where
  "sign_0x2 amount = Inr ''0x2''"

text \<open>An engine with a budget of 1000 USDC, created beside that client.\<close>

definition fresh_engine :: EconomicReasoningEngine where
  "fresh_engine = snd (new_EconomicReasoningEngine paid_store 1000)"

definition fresh_engine_store :: store where
  "fresh_engine_store = fst (new_EconomicReasoningEngine paid_store 1000)"

text \<open>An engine with a budget of 1e16 USDC.\<close>

definition big_engine :: EconomicReasoningEngine where
  "big_engine = snd (new_EconomicReasoningEngine [] 10000000000000000)"

definition big_engine_store :: store where
  "big_engine_store = fst (new_EconomicReasoningEngine [] 10000000000000000)"

text \<open>
  A trade is submitted and cancelled while its workflow run is still waiting for the
  parser; the run then completes with the conditions met, and the suspended activation of
  \<open>startMonitoring\<close> resumes with its result.
\<close>

definition trade_submitted :: TradingDashboard where
  "trade_submitted =
     fst (submitTrade (registerBot (new_TradingDashboard defaultConfig) testBot)
            ''Buy ETH'' ''test-bot'' ''trade_1'' ''2026-01-01T00:00:00.000Z'')"

definition trade_cancelled :: "TradingDashboard \<times> bool" where
  "trade_cancelled = cancelTrade trade_submitted ''trade_1''"

definition trade_workflow :: "call list \<times> (error + WorkflowResult)" where
  "trade_workflow =
     startMonitoring_run (stub_world (parserOutputFor sampleStrategy) (9 / 10)) trade_submitted
       ''Buy ETH'' ''http://example.com/parse''"

definition trade_settled :: TradingDashboard where
  "trade_settled = startMonitoring_resume (fst trade_cancelled) ''trade_1'' (snd trade_workflow)"

definition status_of :: "TradingDashboard \<Rightarrow> string \<Rightarrow> TradeStatus option" where
  "status_of d tradeId = map_option trade_status (getTradeStatus d tradeId)"

section \<open>Lemmas about double-precision arithmetic\<close>

lemma pow2_powr: "pow2 k = 2 powr of_int k"
  by (simp add: pow2_def powr_int)

lemma binade_eq: "x \<noteq> 0 \<Longrightarrow> pow2 e \<le> \<bar>x\<bar> \<Longrightarrow> \<bar>x\<bar> < pow2 (e + 1) \<Longrightarrow> binade x = e"
  unfolding binade_def pow2_powr by (subst floor_log_eq_powr_iff) (auto simp: add.commute)

lemma fl_eval:
  "x \<noteq> 0 \<Longrightarrow> pow2 e \<le> \<bar>x\<bar> \<Longrightarrow> \<bar>x\<bar> < pow2 (e + 1) \<Longrightarrow>
   fl x = pow2 (max e (- 1022) - 52) * of_int (round_even (x / pow2 (max e (- 1022) - 52)))"
  by (simp add: fl_def ulp_def binade_eq)

lemma pow2_pos: "pow2 k > 0"
  by (simp add: pow2_powr)

lemma pow2_add: "pow2 (a + b) = pow2 a * pow2 b"
  by (simp add: pow2_powr powr_add)

lemma pow2_mono: "a \<le> b \<Longrightarrow> pow2 a \<le> pow2 b"
  by (simp add: pow2_powr)

lemma pow2_nat: "0 \<le> k \<Longrightarrow> pow2 k = of_int (2 ^ nat k)"
  by (simp add: pow2_def)

lemma ulp_pos: "ulp x > 0"
  by (simp add: ulp_def pow2_pos)

lemma ulp_grid: "\<exists>n::int. ulp x = of_int n * pow2 (- 1074)"
proof -
  let ?m = "max (binade x) (- 1022) - 52"
  have "?m = (?m + 1074) + (- 1074)" by simp
  then have "pow2 ?m = pow2 (?m + 1074) * pow2 (- 1074)"
    by (metis pow2_add)
  moreover have "0 \<le> ?m + 1074" by simp
  ultimately have "ulp x = of_int (2 ^ nat (?m + 1074)) * pow2 (- 1074)"
    unfolding ulp_def using pow2_nat by metis
  then show ?thesis by blast
qed

lemma double_grid:
  assumes "is_double x"
  shows "\<exists>k::int. x = of_int k * pow2 (- 1074)"
proof (cases "x = 0")
  case True
  then have "x = of_int 0 * pow2 (- 1074)" by simp
  then show ?thesis by blast
next
  case False
  obtain n :: int where n: "ulp x = of_int n * pow2 (- 1074)"
    using ulp_grid by blast
  from assms False have "x = ulp x * of_int (round_even (x / ulp x))"
    by (simp add: is_double_def fl_def)
  also have "\<dots> = of_int (n * round_even (x / ulp x)) * pow2 (- 1074)"
    by (simp only: n of_int_mult mult_ac)
  finally show ?thesis by blast
qed

lemma binade_le: "x \<noteq> 0 \<Longrightarrow> pow2 (binade x) \<le> \<bar>x\<bar>"
proof -
  assume "x \<noteq> 0"
  then have "2 powr of_int \<lfloor>log 2 \<bar>x\<bar>\<rfloor> \<le> 2 powr log 2 \<bar>x\<bar>"
    by (intro powr_mono) auto
  with \<open>x \<noteq> 0\<close> show ?thesis
    by (simp add: binade_def pow2_powr)
qed

lemma ulp_le: "pow2 (- 1074) \<le> \<bar>x\<bar> \<Longrightarrow> ulp x \<le> \<bar>x\<bar>"
proof -
  assume a: "pow2 (- 1074) \<le> \<bar>x\<bar>"
  then have nz: "x \<noteq> 0" using pow2_pos [of "- 1074"] by auto
  show ?thesis
  proof (cases "- 1022 \<le> binade x")
    case True
    then have "ulp x = pow2 (binade x - 52)" by (simp add: ulp_def max_def)
    also have "\<dots> \<le> pow2 (binade x)" by (rule pow2_mono) simp
    also have "\<dots> \<le> \<bar>x\<bar>" using nz by (rule binade_le)
    finally show ?thesis .
  next
    case False
    then have "ulp x = pow2 (- 1074)" by (simp add: ulp_def max_def)
    with a show ?thesis by simp
  qed
qed

lemma round_even_le_ceiling: "round_even y \<le> \<lceil>y\<rceil>"
  unfolding round_even_def Let_def by (auto simp: ceiling_altdef)

lemma fl_negative:
  assumes "x \<le> - pow2 (- 1074)"
  shows "fl x < 0"
proof -
  have p: "pow2 (- 1074) > 0" by (rule pow2_pos)
  with assms have neg: "x < 0" by linarith
  then have abs: "pow2 (- 1074) \<le> \<bar>x\<bar>" using assms by linarith
  then have "ulp x \<le> - x" using ulp_le [OF abs] neg by simp
  then have "x / ulp x \<le> - 1"
    using ulp_pos [of x] by (simp add: pos_divide_le_eq)
  then have "\<lceil>x / ulp x\<rceil> \<le> - 1" by (simp add: ceiling_le_iff)
  with round_even_le_ceiling [of "x / ulp x"] have "round_even (x / ulp x) \<le> - 1" by linarith
  then have "of_int (round_even (x / ulp x)) * ulp x < (0::real)"
    using ulp_pos [of x] by (simp add: mult_neg_pos)
  with neg show ?thesis by (simp add: fl_def mult.commute)
qed

lemma fsub_negative:
  assumes "is_double a" "is_double b" "b < a"
  shows "fl (b - a) < 0"
proof -
  obtain ka kb :: int where k: "a = of_int ka * pow2 (- 1074)" "b = of_int kb * pow2 (- 1074)"
    using assms double_grid by blast
  have p: "pow2 (- 1074) > 0" by (rule pow2_pos)
  from k assms(3) p have "kb < ka"
    by (simp add: mult_less_cancel_right)
  then have "kb - ka \<le> - 1" by simp
  then have "of_int (kb - ka) * pow2 (- 1074) \<le> (- 1) * pow2 (- 1074)"
    using p by (intro mult_right_mono) (simp_all add: of_int_le_iff [symmetric] del: of_int_le_iff of_int_diff)
  with k have "b - a \<le> - pow2 (- 1074)" by (simp add: algebra_simps)
  then show ?thesis by (rule fl_negative)
qed

text \<open>The roundings that the fixtures need.\<close>

lemma fl_half: "fl (1 / 2) = 1 / 2"
  by (subst fl_eval [where e = "- 1"]) (simp_all add: round_even_def Let_def pow2_def)

lemma fl_100: "fl 100 = 100"
  by (subst fl_eval [where e = 6]) (simp_all add: round_even_def Let_def pow2_def)

lemma fl_250: "fl 250 = 250"
  by (subst fl_eval [where e = 7]) (simp_all add: round_even_def Let_def pow2_def)

lemma fl_300: "fl 300 = 300"
  by (subst fl_eval [where e = 8]) (simp_all add: round_even_def Let_def pow2_def)

lemma fl_600: "fl 600 = 600"
  by (subst fl_eval [where e = 9]) (simp_all add: round_even_def Let_def pow2_def)

lemma fl_1000: "fl 1000 = 1000"
  by (subst fl_eval [where e = 9]) (simp_all add: round_even_def Let_def pow2_def)

lemma fl_1500: "fl 1500 = 1500"
  by (subst fl_eval [where e = 10]) (simp_all add: round_even_def Let_def pow2_def)

lemma fl_minus_500: "fl (- 500) = - 500"
  by (subst fl_eval [where e = 8]) (simp_all add: round_even_def Let_def pow2_def)

lemma fl_3600000: "fl 3600000 = 3600000"
  by (subst fl_eval [where e = 21]) (simp_all add: round_even_def Let_def pow2_def)

lemma fl_near_250: "fl (250 + 1 / 2 ^ 45) = 250 + 1 / 2 ^ 45"
  by (subst fl_eval [where e = 7]) (simp_all add: round_even_def Let_def pow2_def)

text \<open>Two ties, both rounded to the even neighbour.\<close>

lemma fl_near_500: "fl (500 + 1 / 2 ^ 45) = 500"
  by (subst fl_eval [where e = 8]) (simp_all add: round_even_def Let_def pow2_def)

lemma fl_below_1e16: "fl 9999999999999999 = 10000000000000000"
  by (subst fl_eval [where e = 53]) (simp_all add: round_even_def Let_def pow2_def)

lemma fl_1e16: "fl 10000000000000000 = 10000000000000000"
  by (subst fl_eval [where e = 53]) (simp_all add: round_even_def Let_def pow2_def)

lemma fl_one: "fl 1 = 1"
  by (subst fl_eval [where e = 0]) (simp_all add: round_even_def Let_def pow2_def)

lemma fl_distant_minutes: "fl (4503599627370496 * 60000) = 4503599627370496 * 60000"
  by (subst fl_eval [where e = 67]) (simp_all add: round_even_def Let_def pow2_def)

lemma fl_distant_expiry: "fl (1767225600000 + 4503599627370496 * 60000) > 8640000000000000"
  by (subst fl_eval [where e = 67]) (simp_all add: round_even_def Let_def pow2_def)

section \<open>Lemmas about the object store\<close>

lemma map_filter_cong_set:
  "(\<And>x. x \<in> set xs \<Longrightarrow> f x = g x) \<Longrightarrow> List.map_filter f xs = List.map_filter g xs"
  by (induction xs) (auto simp: map_filter_simps split: option.splits)

lemma map_filter_snoc:
  "List.map_filter f (xs @ [x]) = List.map_filter f xs @ (case f x of None \<Rightarrow> [] | Some y \<Rightarrow> [y])"
  by (induction xs) (auto simp: map_filter_simps split: option.splits)

lemma array_at_alloc: "a < length h \<Longrightarrow> array_at (h @ [ob]) a = array_at h a"
  by (simp add: array_at_def nth_append)

lemma payment_at_alloc: "a < length h \<Longrightarrow> payment_at (h @ [ob]) a = payment_at h a"
  by (simp add: payment_at_def nth_append)

lemma reason_at_alloc: "a < length h \<Longrightarrow> reason_at (h @ [ob]) a = reason_at h a"
  by (simp add: reason_at_def nth_append)

lemma array_at_new: "array_at (h @ [ArrayObj xs]) (length h) = xs"
  by (simp add: array_at_def)

lemma allocatedD: "allocated h a \<Longrightarrow> a < length h" "allocated h a \<Longrightarrow> e \<in> set (array_at h a) \<Longrightarrow> e < length h"
  by (auto simp: allocated_def list_all_iff)

lemma read_payments_alloc:
  "allocated h a \<Longrightarrow> read_payments (h @ [ob]) a = read_payments h a"
  unfolding read_payments_def
  by (simp add: array_at_alloc allocatedD(1)) (rule map_filter_cong_set, simp add: payment_at_alloc allocatedD(2))

lemma read_reasons_alloc:
  "allocated h a \<Longrightarrow> read_reasons (h @ [ob]) a = read_reasons h a"
  unfolding read_reasons_def
  by (simp add: array_at_alloc allocatedD(1)) (rule map_filter_cong_set, simp add: reason_at_alloc allocatedD(2))

lemma read_payments_copy:
  "allocated h a \<Longrightarrow> read_payments (h @ [ArrayObj (array_at h a)]) (length h) = read_payments h a"
  unfolding read_payments_def
  by (simp add: array_at_new) (rule map_filter_cong_set, simp add: payment_at_alloc allocatedD(2))

lemma read_reasons_copy:
  "allocated h a \<Longrightarrow> read_reasons (h @ [ArrayObj (array_at h a)]) (length h) = read_reasons h a"
  unfolding read_reasons_def
  by (simp add: array_at_new) (rule map_filter_cong_set, simp add: reason_at_alloc allocatedD(2))

text \<open>The log a caller reads through a getter is the content of the private array.\<close>

lemma payment_log_eq: "allocated h (records c) \<Longrightarrow> payment_log h c = read_payments h (records c)"
  by (simp add: payment_log_def getPaymentRecords_def array_copy_def alloc_def read_payments_copy)

lemma reason_log_eq: "allocated h (reasonCodes e) \<Longrightarrow> reason_log h e = read_reasons h (reasonCodes e)"
  by (simp add: reason_log_def getReasonCodes_def array_copy_def alloc_def read_reasons_copy)

lemma array_at_push: "a < length h \<Longrightarrow> array_at (array_push h a x) a = array_at h a @ [x]"
  by (simp add: array_push_def array_at_def)

lemma length_push: "length (array_push h a x) = length h"
  by (simp add: array_push_def)

lemma reason_at_push:
  "reason_at (array_push h a x) e = (if e = a then None else reason_at h e)"
  by (auto simp: array_push_def reason_at_def array_at_def split: obj.splits)

lemma payment_at_push:
  "payment_at (array_push h a x) e = (if e = a \<and> a < length h then None else payment_at h e)"
  by (auto simp: array_push_def payment_at_def array_at_def split: obj.splits)

lemma allocated_alloc: "allocated h a \<Longrightarrow> allocated (h @ [ob]) a"
  unfolding allocated_def list_all_iff
  apply (clarsimp simp: array_at_alloc)
  apply (drule bspec, assumption)
  apply simp
  done

lemma no_entry_at_array: "e \<in> set (array_at h a) \<Longrightarrow> reason_at h a = None \<and> payment_at h a = None"
  unfolding array_at_def reason_at_def payment_at_def
  by (cases "a < length h"; cases "h ! a") simp_all

lemma allocated_push_new:
  "allocated h a \<Longrightarrow> allocated (array_push (h @ [ob]) a (length h)) a"
  by (auto simp: allocated_def length_push array_at_push array_at_alloc list_all_iff)

lemma read_reasons_push_new:
  assumes "allocated h a"
  shows "read_reasons (array_push (h @ [ReasonObj rc]) a (length h)) a = read_reasons h a @ [rc]"
proof -
  have a: "a < length h" using assms by (rule allocatedD(1))
  have old: "\<And>e. e \<in> set (array_at h a) \<Longrightarrow>
               reason_at (array_push (h @ [ReasonObj rc]) a (length h)) e = reason_at h e"
    using assms by (auto simp: reason_at_push reason_at_alloc allocatedD(2) no_entry_at_array)
  have new: "reason_at (array_push (h @ [ReasonObj rc]) a (length h)) (length h) = Some rc"
    using a by (simp add: reason_at_push) (simp add: reason_at_def)
  have "array_at (array_push (h @ [ReasonObj rc]) a (length h)) a = array_at h a @ [length h]"
    using a by (simp add: array_at_push array_at_alloc)
  then show ?thesis
    unfolding read_reasons_def
    by (simp add: map_filter_snoc new) (rule map_filter_cong_set, rule old)
qed

lemma read_payments_push_new:
  assumes "allocated h a"
  shows "read_payments (array_push (h @ [PaymentObj p]) a (length h)) a = read_payments h a @ [p]"
proof -
  have a: "a < length h" using assms by (rule allocatedD(1))
  have old: "\<And>e. e \<in> set (array_at h a) \<Longrightarrow>
               payment_at (array_push (h @ [PaymentObj p]) a (length h)) e = payment_at h e"
    using assms by (auto simp: payment_at_push payment_at_alloc allocatedD(2) no_entry_at_array)
  have new: "payment_at (array_push (h @ [PaymentObj p]) a (length h)) (length h) = Some p"
    using a by (simp add: payment_at_push) (simp add: payment_at_def)
  have "array_at (array_push (h @ [PaymentObj p]) a (length h)) a = array_at h a @ [length h]"
    using a by (simp add: array_at_push array_at_alloc)
  then show ?thesis
    unfolding read_payments_def
    by (simp add: map_filter_snoc new) (rule map_filter_cong_set, rule old)
qed

lemma set_status_new:
  "set_status (h @ [PaymentObj p]) (length h) st = h @ [PaymentObj (p\<lparr>status := st\<rparr>)]"
  by (simp add: set_status_def payment_at_def)

text \<open>Objects that are allocated later leave the earlier ones as they are.\<close>

lemma array_at_append: "a < length h \<Longrightarrow> array_at (h @ hs) a = array_at h a"
  by (simp add: array_at_def nth_append)

lemma payment_at_append: "a < length h \<Longrightarrow> payment_at (h @ hs) a = payment_at h a"
  by (simp add: payment_at_def nth_append)

lemma reason_at_append: "a < length h \<Longrightarrow> reason_at (h @ hs) a = reason_at h a"
  by (simp add: reason_at_def nth_append)

lemma read_payments_append:
  "allocated h a \<Longrightarrow> read_payments (h @ hs) a = read_payments h a"
  unfolding read_payments_def
  by (simp add: array_at_append allocatedD(1))
     (rule map_filter_cong_set, simp add: payment_at_append allocatedD(2))

lemma read_reasons_append:
  "allocated h a \<Longrightarrow> read_reasons (h @ hs) a = read_reasons h a"
  unfolding read_reasons_def
  by (simp add: array_at_append allocatedD(1))
     (rule map_filter_cong_set, simp add: reason_at_append allocatedD(2))

lemma allocated_append: "allocated h a \<Longrightarrow> allocated (h @ hs) a"
  unfolding allocated_def list_all_iff
  apply (clarsimp simp: array_at_append)
  apply (drule bspec, assumption)
  apply simp
  done

lemma overwrite_copy:
  "(h @ [ob] @ hs)[length h := ob'] = h @ [ob'] @ hs"
  by (simp add: list_update_append)

lemma allocated_set_status_new:
  "allocated h a \<Longrightarrow> allocated (set_status (h @ [PaymentObj p]) (length h) st) a"
  by (simp add: set_status_new allocated_alloc)

text \<open>
  The constructors establish \<open>allocated\<close> for the private array and the operations of both
  classes keep it, so it holds after every history of calls.
\<close>

lemma allocated_new_X402PaymentClient:
  "allocated (fst (new_X402PaymentClient h)) (records (snd (new_X402PaymentClient h)))"
  by (simp add: new_X402PaymentClient_def alloc_def allocated_def array_at_def)

lemma allocated_new_EconomicReasoningEngine:
  "allocated (fst (new_EconomicReasoningEngine h b)) (reasonCodes (snd (new_EconomicReasoningEngine h b)))"
  by (simp add: new_EconomicReasoningEngine_def alloc_def allocated_def array_at_def)

lemma allocated_shouldPurchase:
  "allocated h (reasonCodes e) \<Longrightarrow>
   allocated (fst (shouldPurchase h e toolName cost)) (reasonCodes (fst (snd (shouldPurchase h e toolName cost))))"
  by (simp add: shouldPurchase_def alloc_def Let_def allocated_push_new)

lemma allocated_fetchWithPayment:
  "allocated h (records c) \<Longrightarrow>
   allocated (fst (fetchWithPayment fetch now h c toolUrl signPayment cost)) (records c)"
  by (simp add: fetchWithPayment_def alloc_def Let_def set_status_new allocated_alloc
                allocated_push_new split: sum.splits)

section \<open>Evaluation of the fixtures\<close>

lemma sample_issues: "StrategyDSLSchema_issues sampleStrategy = []"
  by (simp add: StrategyDSLSchema_issues_def sampleStrategy_def ConditionSchema_issues_def
                ActionSchema_issues_def ControlsSchema_issues_def is_integer_def enumerate_eq_zip)

lemma wide_issues: "StrategyDSLSchema_issues wideSlippageStrategy = []"
  by (simp add: StrategyDSLSchema_issues_def sampleStrategy_def wideSlippageStrategy_def
                ConditionSchema_issues_def ActionSchema_issues_def ControlsSchema_issues_def
                is_integer_def enumerate_eq_zip)

lemma two_swap_issues: "StrategyDSLSchema_issues twoSwapStrategy = []"
  by (simp add: StrategyDSLSchema_issues_def sampleStrategy_def twoSwapStrategy_def
                ConditionSchema_issues_def ActionSchema_issues_def ControlsSchema_issues_def
                is_integer_def enumerate_eq_zip upt_rec)

lemma near_cap_issues: "StrategyDSLSchema_issues nearCapStrategy = []"
  by (simp add: StrategyDSLSchema_issues_def sampleStrategy_def nearCapStrategy_def
                ConditionSchema_issues_def ActionSchema_issues_def ControlsSchema_issues_def
                is_integer_def enumerate_eq_zip upt_rec)

lemma distant_expiry_issues: "StrategyDSLSchema_issues distantExpiryStrategy = []"
  by (simp add: StrategyDSLSchema_issues_def sampleStrategy_def distantExpiryStrategy_def
                ConditionSchema_issues_def ActionSchema_issues_def ControlsSchema_issues_def
                is_integer_def enumerate_eq_zip)

lemma doge_issues: "StrategyDSLSchema_issues dogeStrategy = []"
  by (simp add: StrategyDSLSchema_issues_def sampleStrategy_def dogeStrategy_def
                ConditionSchema_issues_def ActionSchema_issues_def ControlsSchema_issues_def
                is_integer_def enumerate_eq_zip)

lemma wide_valid: "valid (validateStrategy wideSlippageStrategy defaultLimits)"
  by (simp add: validateStrategy_def StrategyDSLSchema_safeParse_def wide_issues Let_def)
     (simp add: wideSlippageStrategy_def sampleStrategy_def defaultLimits_def)

lemma sample_valid:
  "validateStrategy sampleStrategy
     \<lparr>allowed_pairs = [''ETH/USDC''], max_spend_usdc = 500, limit_max_slippage_bps = 100\<rparr>
   = \<lparr>valid = True, strategy = Some sampleStrategy, errors = [], clamped = []\<rparr>"
  by (simp add: validateStrategy_def StrategyDSLSchema_safeParse_def sample_issues Let_def)
     (simp add: sampleStrategy_def)

lemma doge_parse:
  "parse (http_post (stub_world (parserOutputFor dogeStrategy) rnd)) p i
     = Inr (parserOutputFor dogeStrategy)"
  by (simp add: parse_def stub_world_def ok_def json_def parserOutputFor_def
                StrategyDSLSchema_safeParse_def doge_issues)

lemma doge_invalid:
  "\<not> valid (validateStrategy dogeStrategy
              (run_limits (new_AgentWorkflow w defaultConfig None)))"
  by (simp add: validateStrategy_def StrategyDSLSchema_safeParse_def doge_issues Let_def
                run_limits_def new_AgentWorkflow_def defaultConfig_def)
     (simp add: dogeStrategy_def sampleStrategy_def)

lemma paid_client_eq: "paid_client = \<lparr>records = 0\<rparr>"
  by (simp add: paid_client_def new_X402PaymentClient_def alloc_def)

lemma paid_store_eq:
  "paid_store = [ArrayObj [1], PaymentObj (flipped_record\<lparr>status := Success\<rparr>)]"
  by (simp add: paid_store_def paid_client_eq new_X402PaymentClient_def alloc_def
                fetchWithPayment_def paid_tool_def ok_def Let_def array_push_def array_at_def
                flipped_record_def json_def)

lemma big_engine_eq: "big_engine = \<lparr>budgetRemaining = 10000000000000000, reasonCodes = 0\<rparr>"
  by (simp add: big_engine_def new_EconomicReasoningEngine_def alloc_def)

lemma two_payment_store_eq:
  "two_payment_store =
     [ArrayObj [1, 2],
      PaymentObj \<lparr>tool = ''https://api.example.com/a'', cost_usdc = 250 + 1 / 2 ^ 45,
                  tx_hash = ''0x1'', timestamp = ''t1'', status = Success\<rparr>,
      PaymentObj \<lparr>tool = ''https://api.example.com/b'', cost_usdc = 250,
                  tx_hash = ''0x1'', timestamp = ''t2'', status = Success\<rparr>]"
  by (simp add: two_payment_store_def paid_client_eq new_X402PaymentClient_def alloc_def
                fetchWithPayment_def paid_tool_def ok_def Let_def array_push_def array_at_def
                json_def sign_0x1_def)

lemma fresh_engine_eq: "fresh_engine = \<lparr>budgetRemaining = 1000, reasonCodes = 2\<rparr>"
  by (simp add: fresh_engine_def new_EconomicReasoningEngine_def alloc_def paid_store_eq)

lemma fresh_engine_store_eq: "fresh_engine_store = paid_store @ [ArrayObj []]"
  by (simp add: fresh_engine_store_def new_EconomicReasoningEngine_def alloc_def)

lemma fresh_allocated:
  "allocated fresh_engine_store (reasonCodes fresh_engine)"
  "allocated fresh_engine_store (records paid_client)"
  by (simp_all add: fresh_engine_eq fresh_engine_store_eq paid_store_eq paid_client_eq
                    allocated_def array_at_def)

lemma sample_expiry: "expires_in_minutes (controls sampleStrategy) = 60"
  by (simp add: sampleStrategy_def)

lemma trade_workflow_eval:
  "fst trade_workflow =
     [CallParse, CallValidate, CallEncrypt, CallCheckConditions, CallDecrypt, CallCheckRisk,
      CallExecute, CallBuildReceipt]
   \<and> map_sum id (\<lambda>r. receipt_status (receipt r)) (snd trade_workflow) = Inr RExecuted"
  apply (simp add: trade_workflow_def startMonitoring_run_def Let_def run_def
                new_AgentWorkflow_def run_limits_def run_parser_input_def
                parse_def ok_def json_def StrategyDSLSchema_safeParse_def
                parserOutputFor_def sample_issues sample_valid defaultConfig_def
                trade_submitted_def submitTrade_def registerBot_def new_TradingDashboard_def
                testBot_def startMonitoring_begin_def set_trade_status_def
                stub_world_def)
  apply (simp add: encrypt_def decrypt_def stub_library_def Let_def new_BiteIntentHandler_def
                   comp_def Date_toISOString_def fadd_def fmul_def sample_expiry fl_3600000)
  apply (simp add: sampleStrategy_def checkRisk_def run_risk_config_def totalSpend_def Let_def
                   execute_def new_TradeExecutor_def buildReceipt_def fadd_def fl_100)
  done

lemma trade_submitted_eval:
  "trades trade_submitted ''trade_1'' =
     Some \<lparr>trade_id = ''trade_1'', trade_user_prompt = ''Buy ETH'', bot_name = ''test-bot'',
           submitted_at = ''2026-01-01T00:00:00.000Z'', trade_status = Monitoring,
           trade_result = None\<rparr>"
  "awaiting trade_submitted = [(''trade_1'', ''Buy ETH'', ''http://example.com/parse'')]"
  "monitoringIntervals trade_submitted = Map.empty"
  by (simp_all add: trade_submitted_def submitTrade_def registerBot_def new_TradingDashboard_def
                    testBot_def startMonitoring_begin_def set_trade_status_def Let_def)

lemma trade_cancelled_eval:
  "snd trade_cancelled = True"
  "trades (fst trade_cancelled) ''trade_1'' =
     Some \<lparr>trade_id = ''trade_1'', trade_user_prompt = ''Buy ETH'', bot_name = ''test-bot'',
           submitted_at = ''2026-01-01T00:00:00.000Z'', trade_status = Expired,
           trade_result = None\<rparr>"
  "awaiting (fst trade_cancelled) = [(''trade_1'', ''Buy ETH'', ''http://example.com/parse'')]"
  "monitoringIntervals (fst trade_cancelled) = Map.empty"
  by (simp_all add: trade_cancelled_def cancelTrade_def trade_submitted_eval stopMonitoring_def
                    set_trade_status_def)

section \<open>Limit enforcer and risk re-checker\<close>

lemma validateStrategy_valid_strategy:
  "valid (validateStrategy dsl limits) \<Longrightarrow> \<exists>s. strategy (validateStrategy dsl limits) = Some s"
  by (auto simp: validateStrategy_def Let_def split: sum.splits if_splits)

lemma safeParse_Inr: "StrategyDSLSchema_safeParse dsl = Inr d \<Longrightarrow> d = dsl"
  by (auto simp: StrategyDSLSchema_safeParse_def Let_def split: if_splits)

lemma spend_loop_no_excess:
  "list_all (\<lambda>a. amount_usdc a \<le> cap) as \<Longrightarrow>
   foldl (\<lambda>errs action. if amount_usdc action > cap
                          then errs @ [ActionAmountExceedsCap (amount_usdc action) cap]
                          else errs) errs0 as = errs0"
  by (induction as arbitrary: errs0) auto

lemma schema_expiry_positive:
  "StrategyDSLSchema_issues s = [] \<Longrightarrow> expires_in_minutes (controls s) > 0"
  by (auto simp: StrategyDSLSchema_issues_def ControlsSchema_issues_def split: if_splits)

text \<open>
  Claim C2. Whenever \<open>validateStrategy\<close> accepts an input (\<open>valid = True\<close>), it returns a
  strategy whose \<open>max_slippage_bps\<close> is at most the limit, also when the input exceeded the
  limit, and validating the returned strategy again under the same limits yields an empty
  \<open>clamped\<close> list.
\<close>

theorem clamp_bounded_and_idempotent:
  "valid (validateStrategy dsl limits) \<longrightarrow>
     (\<exists>s. strategy (validateStrategy dsl limits) = Some s
        \<and> max_slippage_bps (controls s) \<le> limit_max_slippage_bps limits
        \<and> clamped (validateStrategy s limits) = [])"
proof
  assume v: "valid (validateStrategy dsl limits)"
  then obtain s where s: "strategy (validateStrategy dsl limits) = Some s"
    using validateStrategy_valid_strategy by blast
  from v have p: "StrategyDSLSchema_safeParse dsl = Inr dsl"
    by (auto simp: validateStrategy_def StrategyDSLSchema_safeParse_def Let_def
             split: sum.splits if_splits)
  have s_eq: "s = (if max_slippage_bps (controls dsl) > limit_max_slippage_bps limits
                   then dsl\<lparr>controls :=
                          (controls dsl)\<lparr>max_slippage_bps := limit_max_slippage_bps limits\<rparr>\<rparr>
                   else dsl)"
    using s p by (simp add: validateStrategy_def Let_def split: if_splits)
  have le: "max_slippage_bps (controls s) \<le> limit_max_slippage_bps limits"
    by (simp add: s_eq)
  have "clamped (validateStrategy s limits) = []"
  proof (cases "StrategyDSLSchema_safeParse s")
    case (Inl issues)
    then show ?thesis by (simp add: validateStrategy_def)
  next
    case (Inr d)
    then have "d = s" by (rule safeParse_Inr)
    with Inr le show ?thesis by (simp add: validateStrategy_def Let_def)
  qed
  with s le show "\<exists>s. strategy (validateStrategy dsl limits) = Some s
        \<and> max_slippage_bps (controls s) \<le> limit_max_slippage_bps limits
        \<and> clamped (validateStrategy s limits) = []" by blast
qed

text \<open>
  The test input with a slippage of 100 bps against a limit of 75 bps is accepted and
  exceeds the limit.
\<close>

theorem clamp_bounded_and_idempotent_witness:
  "valid (validateStrategy wideSlippageStrategy defaultLimits)
   \<and> max_slippage_bps (controls wideSlippageStrategy) > limit_max_slippage_bps defaultLimits
   \<and> (\<exists>s. strategy (validateStrategy wideSlippageStrategy defaultLimits) = Some s
        \<and> max_slippage_bps (controls s) \<le> limit_max_slippage_bps defaultLimits
        \<and> clamped (validateStrategy s defaultLimits) = [])"
proof -
  have over: "max_slippage_bps (controls wideSlippageStrategy) > limit_max_slippage_bps defaultLimits"
    by (simp add: wideSlippageStrategy_def sampleStrategy_def defaultLimits_def)
  show ?thesis
    using clamp_bounded_and_idempotent [of wideSlippageStrategy defaultLimits] wide_valid over
    by simp
qed

text \<open>
  Claim C3. For every strategy \<open>s\<close>, \<open>checkRisk\<close> under a configuration whose
  \<open>max_expires_minutes\<close> is the strategy's own \<open>expires_in_minutes\<close> reports no expiry
  violation; the configuration \<open>run\<close> builds for its re-check is of that form, whatever
  the strategy and the workflow.
\<close>

theorem expiry_recheck_is_vacuous:
  "filter is_expiry_violation
     (violations (checkRisk s (cfg\<lparr>max_expires_minutes := expires_in_minutes (controls s)\<rparr>))) = []
   \<and> filter is_expiry_violation (violations (checkRisk s (run_risk_config this s))) = []"
  by (simp add: checkRisk_def run_risk_config_def Let_def)

text \<open>
  An expiry of 2880 minutes exceeds the ceiling of 1440 minutes of the tests, and passes
  once the ceiling is the strategy's own expiry.
\<close>

theorem expiry_recheck_is_vacuous_witness:
  "expires_in_minutes (controls (sampleStrategy\<lparr>controls :=
       (controls sampleStrategy)\<lparr>expires_in_minutes := 2880\<rparr>\<rparr>)) > max_expires_minutes defaultRiskConfig
   \<and> filter is_expiry_violation
        (violations (checkRisk
           (sampleStrategy\<lparr>controls := (controls sampleStrategy)\<lparr>expires_in_minutes := 2880\<rparr>\<rparr>)
           (defaultRiskConfig\<lparr>max_expires_minutes :=
              expires_in_minutes (controls (sampleStrategy\<lparr>controls :=
                (controls sampleStrategy)\<lparr>expires_in_minutes := 2880\<rparr>\<rparr>))\<rparr>))) = []"
  using expiry_recheck_is_vacuous
          [where s = "sampleStrategy\<lparr>controls := (controls sampleStrategy)\<lparr>expires_in_minutes := 2880\<rparr>\<rparr>"
             and cfg = defaultRiskConfig]
  by (simp add: defaultRiskConfig_def)

text \<open>
  Claim C6, as amended. For a well-formed strategy whose pair is allowed, whose slippage is
  within the limit and whose actions each stay within the hard cap while the total that
  \<open>checkRisk\<close> computes, the sum of the amounts in double precision from left to right,
  exceeds it, \<open>validateStrategy\<close> returns \<open>valid = True\<close>, and \<open>checkRisk\<close> with the same
  cap returns \<open>passed = False\<close> with the aggregate-spend violation. For every strategy and
  configuration, the violations of \<open>checkRisk\<close> are the four checks' own outcomes, each
  reported whether or not another check failed.
\<close>

theorem per_action_cap_and_aggregate_cap:
  "(StrategyDSLSchema_issues s = []
      \<and> pair s \<in> set (allowed_pairs limits)
      \<and> max_slippage_bps (controls s) \<le> limit_max_slippage_bps limits
      \<and> list_all (\<lambda>a. amount_usdc a \<le> max_spend_usdc limits) (actions s)
      \<and> totalSpend (actions s) > max_spend_usdc limits
      \<and> risk_max_spend_usdc cfg = max_spend_usdc limits
    \<longrightarrow> valid (validateStrategy s limits)
        \<and> \<not> passed (checkRisk s cfg)
        \<and> TotalSpendExceedsCap (totalSpend (actions s)) (max_spend_usdc limits)
             \<in> set (violations (checkRisk s cfg)))
   \<and> violations (checkRisk s cfg) =
        (if pair s \<notin> set (risk_allowed_pairs cfg) then [PairNotAllowed (pair s)] else [])
        @ (if totalSpend (actions s) > risk_max_spend_usdc cfg
           then [TotalSpendExceedsCap (totalSpend (actions s)) (risk_max_spend_usdc cfg)] else [])
        @ (if max_slippage_bps (controls s) > risk_max_slippage_bps cfg
           then [SlippageExceedsMax (max_slippage_bps (controls s)) (risk_max_slippage_bps cfg)]
           else [])
        @ (if expires_in_minutes (controls s) > max_expires_minutes cfg
           then [ExpiryExceedsMax (expires_in_minutes (controls s)) (max_expires_minutes cfg)]
           else [])"
proof (intro conjI impI)
  assume as: "StrategyDSLSchema_issues s = []
      \<and> pair s \<in> set (allowed_pairs limits)
      \<and> max_slippage_bps (controls s) \<le> limit_max_slippage_bps limits
      \<and> list_all (\<lambda>a. amount_usdc a \<le> max_spend_usdc limits) (actions s)
      \<and> totalSpend (actions s) > max_spend_usdc limits
      \<and> risk_max_spend_usdc cfg = max_spend_usdc limits"
  then have pos: "expires_in_minutes (controls s) > 0"
    by (simp add: schema_expiry_positive)
  from as pos show "valid (validateStrategy s limits)"
    by (simp add: validateStrategy_def StrategyDSLSchema_safeParse_def Let_def spend_loop_no_excess)
  from as show "\<not> passed (checkRisk s cfg)"
    by (simp add: checkRisk_def Let_def)
  from as show "TotalSpendExceedsCap (totalSpend (actions s)) (max_spend_usdc limits)
             \<in> set (violations (checkRisk s cfg))"
    by (simp add: checkRisk_def Let_def)
next
  show "violations (checkRisk s cfg) =
        (if pair s \<notin> set (risk_allowed_pairs cfg) then [PairNotAllowed (pair s)] else [])
        @ (if totalSpend (actions s) > risk_max_spend_usdc cfg
           then [TotalSpendExceedsCap (totalSpend (actions s)) (risk_max_spend_usdc cfg)] else [])
        @ (if max_slippage_bps (controls s) > risk_max_slippage_bps cfg
           then [SlippageExceedsMax (max_slippage_bps (controls s)) (risk_max_slippage_bps cfg)]
           else [])
        @ (if expires_in_minutes (controls s) > max_expires_minutes cfg
           then [ExpiryExceedsMax (expires_in_minutes (controls s)) (max_expires_minutes cfg)]
           else [])"
    by (simp add: checkRisk_def Let_def)
qed

text \<open>Two swaps of 300 USDC against a cap of 500 USDC.\<close>

theorem per_action_cap_and_aggregate_cap_witness:
  "StrategyDSLSchema_issues twoSwapStrategy = []
   \<and> pair twoSwapStrategy \<in> set (allowed_pairs defaultLimits)
   \<and> list_all (\<lambda>a. amount_usdc a \<le> max_spend_usdc defaultLimits) (actions twoSwapStrategy)
   \<and> totalSpend (actions twoSwapStrategy) = 600
   \<and> valid (validateStrategy twoSwapStrategy defaultLimits)
   \<and> \<not> passed (checkRisk twoSwapStrategy defaultRiskConfig)
   \<and> TotalSpendExceedsCap 600 500 \<in> set (violations (checkRisk twoSwapStrategy defaultRiskConfig))"
proof -
  have h: "pair twoSwapStrategy \<in> set (allowed_pairs defaultLimits)"
          "max_slippage_bps (controls twoSwapStrategy) \<le> limit_max_slippage_bps defaultLimits"
          "list_all (\<lambda>a. amount_usdc a \<le> max_spend_usdc defaultLimits) (actions twoSwapStrategy)"
          "totalSpend (actions twoSwapStrategy) = 600"
          "risk_max_spend_usdc defaultRiskConfig = max_spend_usdc defaultLimits"
          "max_spend_usdc defaultLimits = 500"
    by (simp_all add: twoSwapStrategy_def sampleStrategy_def defaultLimits_def
                      defaultRiskConfig_def totalSpend_def fadd_def fl_300 fl_600)
  show ?thesis
    using per_action_cap_and_aggregate_cap
            [where s = twoSwapStrategy and limits = defaultLimits and cfg = defaultRiskConfig]
          two_swap_issues h
    by simp
qed

text \<open>
  Claim C6, as stated, fails: two swaps of 250 and 250.00000000000003 USDC are each within
  the cap of 500 USDC and their sum exceeds it, yet the total that \<open>checkRisk\<close> computes is
  500 and the check passes.
\<close>

theorem rounded_total_passes_risk_check:
  "StrategyDSLSchema_issues nearCapStrategy = []
   \<and> pair nearCapStrategy \<in> set (allowed_pairs defaultLimits)
   \<and> max_slippage_bps (controls nearCapStrategy) \<le> limit_max_slippage_bps defaultLimits
   \<and> map amount_usdc (actions nearCapStrategy) = [250, 250 + 1 / 2 ^ 45]
   \<and> is_double 250 \<and> is_double (250 + 1 / 2 ^ 45)
   \<and> 250 \<le> max_spend_usdc defaultLimits
   \<and> 250 + 1 / 2 ^ 45 \<le> max_spend_usdc defaultLimits
   \<and> sum_list (map amount_usdc (actions nearCapStrategy)) > max_spend_usdc defaultLimits
   \<and> risk_max_spend_usdc defaultRiskConfig = max_spend_usdc defaultLimits
   \<and> valid (validateStrategy nearCapStrategy defaultLimits)
   \<and> totalSpend (actions nearCapStrategy) = 500
   \<and> passed (checkRisk nearCapStrategy defaultRiskConfig)"
proof -
  have acts: "map amount_usdc (actions nearCapStrategy) = [250, 250 + 1 / 2 ^ 45]"
    by (simp add: nearCapStrategy_def)
  have d: "is_double 250" "is_double (250 + 1 / 2 ^ 45)"
    by (simp_all only: is_double_def fl_250 fl_near_250)
  have "250 + (250 + 1 / 2 ^ 45) = (500 + 1 / 2 ^ 45 :: real)"
    by simp
  then have "fadd (fadd 0 250) (250 + 1 / 2 ^ 45) = 500"
    by (simp only: fadd_def add_0 fl_250 fl_near_500)
  moreover have "totalSpend (actions nearCapStrategy) = fadd (fadd 0 250) (250 + 1 / 2 ^ 45)"
    by (simp add: totalSpend_def nearCapStrategy_def)
  ultimately have tot: "totalSpend (actions nearCapStrategy) = 500"
    by (simp only:)
  have v: "valid (validateStrategy nearCapStrategy defaultLimits)"
    by (simp add: validateStrategy_def StrategyDSLSchema_safeParse_def near_cap_issues Let_def)
       (simp add: nearCapStrategy_def sampleStrategy_def defaultLimits_def)
  have p: "passed (checkRisk nearCapStrategy defaultRiskConfig)"
    by (simp add: checkRisk_def Let_def tot)
       (simp add: nearCapStrategy_def sampleStrategy_def defaultRiskConfig_def)
  show ?thesis
    using acts d tot v p near_cap_issues
    by (simp add: nearCapStrategy_def sampleStrategy_def defaultLimits_def defaultRiskConfig_def)
qed

section \<open>Economic reasoning engine\<close>

text \<open>
  Claim C7. \<open>shouldPurchase\<close> returns true exactly when the cost is at most the remaining
  budget (a cost equal to it included), leaves the remaining budget as it was, and appends
  exactly one reason code, which records the budget at the time of the decision.
\<close>

theorem shouldPurchase_affordability:
  "allocated h (reasonCodes e) \<longrightarrow>
     (case shouldPurchase h e toolName cost of
        (h', e', b) \<Rightarrow>
          b = (cost \<le> getBudgetRemaining e)
          \<and> getBudgetRemaining e' = getBudgetRemaining e
          \<and> reason_log h' e' =
              reason_log h e @
                [\<lparr>rc_tool = toolName, rc_cost_usdc = cost,
                  budget_remaining_usdc = getBudgetRemaining e,
                  decision = (if cost \<le> getBudgetRemaining e then Proceed else Skip),
                  reason = (if cost \<le> getBudgetRemaining e
                            then Proceeding toolName cost (getBudgetRemaining e)
                            else Skipping toolName cost (getBudgetRemaining e))\<rparr>])"
proof
  assume al: "allocated h (reasonCodes e)"
  show "case shouldPurchase h e toolName cost of
        (h', e', b) \<Rightarrow>
          b = (cost \<le> getBudgetRemaining e)
          \<and> getBudgetRemaining e' = getBudgetRemaining e
          \<and> reason_log h' e' =
              reason_log h e @
                [\<lparr>rc_tool = toolName, rc_cost_usdc = cost,
                  budget_remaining_usdc = getBudgetRemaining e,
                  decision = (if cost \<le> getBudgetRemaining e then Proceed else Skip),
                  reason = (if cost \<le> getBudgetRemaining e
                            then Proceeding toolName cost (getBudgetRemaining e)
                            else Skipping toolName cost (getBudgetRemaining e))\<rparr>]"
    using al
    by (simp add: shouldPurchase_def alloc_def Let_def getBudgetRemaining_def
                  reason_log_eq allocated_push_new read_reasons_push_new)
qed

text \<open>A purchase of exactly the remaining 1000 USDC proceeds.\<close>

theorem shouldPurchase_affordability_witness:
  "allocated fresh_engine_store (reasonCodes fresh_engine)
   \<and> getBudgetRemaining fresh_engine = 1000
   \<and> (case shouldPurchase fresh_engine_store fresh_engine ''price-feed'' 1000 of
        (h', e', b) \<Rightarrow>
          b = ((1000::real) \<le> getBudgetRemaining fresh_engine)
          \<and> getBudgetRemaining e' = getBudgetRemaining fresh_engine
          \<and> reason_log h' e' =
              reason_log fresh_engine_store fresh_engine @
                [\<lparr>rc_tool = ''price-feed'', rc_cost_usdc = 1000,
                  budget_remaining_usdc = getBudgetRemaining fresh_engine,
                  decision = (if 1000 \<le> getBudgetRemaining fresh_engine then Proceed else Skip),
                  reason = (if 1000 \<le> getBudgetRemaining fresh_engine
                            then Proceeding ''price-feed'' 1000 (getBudgetRemaining fresh_engine)
                            else Skipping ''price-feed'' 1000 (getBudgetRemaining fresh_engine))\<rparr>])"
proof -
  have b: "getBudgetRemaining fresh_engine = 1000"
    by (simp add: getBudgetRemaining_def fresh_engine_eq)
  show ?thesis
    using shouldPurchase_affordability
            [where h = fresh_engine_store and e = fresh_engine and toolName = "''price-feed''"
               and cost = 1000]
          fresh_allocated(1) b
    by simp
qed

text \<open>
  Claim C10, as amended. \<open>recordSpend\<close> replaces the remaining budget by the double-precision
  difference of the budget and the amount, with no check and no floor: an amount above the
  remaining budget leaves it negative, and then \<open>shouldPurchase\<close> returns false for every
  positive cost.
\<close>

theorem recordSpend_unchecked:
  "getBudgetRemaining (recordSpend e amount) = fsub (getBudgetRemaining e) amount
   \<and> (is_double (getBudgetRemaining e) \<and> is_double amount \<and> amount > getBudgetRemaining e \<longrightarrow>
        getBudgetRemaining (recordSpend e amount) < 0
        \<and> (\<forall>h toolName cost. cost > 0 \<longrightarrow>
              \<not> snd (snd (shouldPurchase h (recordSpend e amount) toolName cost))))"
proof (intro conjI impI)
  show "getBudgetRemaining (recordSpend e amount) = fsub (getBudgetRemaining e) amount"
    by (simp add: recordSpend_def getBudgetRemaining_def)
next
  assume a: "is_double (getBudgetRemaining e) \<and> is_double amount \<and> amount > getBudgetRemaining e"
  then have neg: "fl (budgetRemaining e - amount) < 0"
    using fsub_negative [of amount "budgetRemaining e"] by (simp add: getBudgetRemaining_def)
  then show "getBudgetRemaining (recordSpend e amount) < 0"
    by (simp add: recordSpend_def getBudgetRemaining_def fsub_def)
  from neg show "\<forall>h toolName cost. cost > 0 \<longrightarrow>
              \<not> snd (snd (shouldPurchase h (recordSpend e amount) toolName cost))"
    by (simp add: recordSpend_def shouldPurchase_def alloc_def Let_def fsub_def)
qed

text \<open>Spending 1500 USDC out of 1000 leaves -500; a cost of one cent is then refused.\<close>

theorem recordSpend_unchecked_witness:
  "is_double (getBudgetRemaining fresh_engine) \<and> is_double 1500
   \<and> (1500::real) > getBudgetRemaining fresh_engine
   \<and> getBudgetRemaining (recordSpend fresh_engine 1500) = - 500
   \<and> \<not> snd (snd (shouldPurchase fresh_engine_store (recordSpend fresh_engine 1500) ''price-feed'' (1 / 100)))"
proof -
  have b: "getBudgetRemaining fresh_engine = 1000"
    by (simp add: getBudgetRemaining_def fresh_engine_eq)
  have d: "is_double 1000" "is_double 1500"
    by (simp_all add: is_double_def fl_1000 fl_1500)
  have r: "fsub 1000 1500 = - 500"
    by (simp add: fsub_def fl_minus_500)
  show ?thesis
    using recordSpend_unchecked [where e = fresh_engine and amount = 1500] b d r
    by simp
qed

text \<open>
  Claim C10, as stated, fails: a budget of 1e16 USDC is not decreased by a spend of 1 USDC,
  since 1e16 - 1 rounds back to 1e16, and a purchase of 1e16 USDC is approved afterwards.
\<close>

theorem recordSpend_rounds_the_difference:
  "is_double (getBudgetRemaining big_engine) \<and> is_double 1
   \<and> getBudgetRemaining big_engine = 10000000000000000
   \<and> getBudgetRemaining (recordSpend big_engine 1) = 10000000000000000
   \<and> getBudgetRemaining (recordSpend big_engine 1) \<noteq> getBudgetRemaining big_engine - 1
   \<and> snd (snd (shouldPurchase big_engine_store (recordSpend big_engine 1) ''price-feed''
                  10000000000000000))"
  by (simp add: big_engine_eq getBudgetRemaining_def recordSpend_def fsub_def is_double_def
                fl_1e16 fl_one fl_below_1e16 shouldPurchase_def alloc_def Let_def)

section \<open>x402 payment client\<close>

text \<open>
  Claim C8, as amended. \<open>getTotalSpent\<close> is the sum, in double precision from left to right,
  of \<open>cost_usdc\<close> over the payment records whose status is success. When the retry after a
  402 response returns a response that is not ok, \<open>fetchWithPayment\<close> raises the
  retry-failure error, appends one record with status failed, and the total spent is
  unchanged.
\<close>

theorem total_spent_counts_success_only:
  "(allocated h (records c) \<longrightarrow>
      getTotalSpent h c =
        foldl (\<lambda>sum r. fadd sum (cost_usdc r)) 0
          (filter (\<lambda>r. status r = Success) (payment_log h c)))
   \<and> (allocated h (records c) \<and> fetch toolUrl None = Inr firstResponse
        \<and> resp_status firstResponse = 402
        \<and> signPayment cost = Inr txHash \<and> fetch toolUrl (Some txHash) = Inr retryResponse
        \<and> \<not> ok retryResponse \<longrightarrow>
       (case fetchWithPayment fetch now h c toolUrl signPayment cost of
          (h', res) \<Rightarrow>
            res = Inl (PaidToolRetryFailed (resp_status retryResponse))
            \<and> payment_log h' c =
                payment_log h c @ [\<lparr>tool = toolUrl, cost_usdc = cost, tx_hash = txHash,
                                    timestamp = now, status = Failure\<rparr>]
            \<and> getTotalSpent h' c = getTotalSpent h c))"
proof (intro conjI impI)
  assume "allocated h (records c)"
  then show "getTotalSpent h c =
        foldl (\<lambda>sum r. fadd sum (cost_usdc r)) 0
          (filter (\<lambda>r. status r = Success) (payment_log h c))"
    by (simp add: getTotalSpent_def payment_log_eq)
next
  assume as: "allocated h (records c) \<and> fetch toolUrl None = Inr firstResponse
        \<and> resp_status firstResponse = 402
        \<and> signPayment cost = Inr txHash \<and> fetch toolUrl (Some txHash) = Inr retryResponse
        \<and> \<not> ok retryResponse"
  then show "case fetchWithPayment fetch now h c toolUrl signPayment cost of
          (h', res) \<Rightarrow>
            res = Inl (PaidToolRetryFailed (resp_status retryResponse))
            \<and> payment_log h' c =
                payment_log h c @ [\<lparr>tool = toolUrl, cost_usdc = cost, tx_hash = txHash,
                                    timestamp = now, status = Failure\<rparr>]
            \<and> getTotalSpent h' c = getTotalSpent h c"
    by (simp add: fetchWithPayment_def alloc_def Let_def set_status_new payment_log_eq
                  allocated_push_new read_payments_push_new getTotalSpent_def)
qed

text \<open>
  After one successful payment of 0.5 USDC, a payment of 1.5 USDC whose retry returns
  HTTP 500.
\<close>

theorem total_spent_counts_success_only_witness:
  "allocated paid_store (records paid_client)
   \<and> \<not> ok \<lparr>resp_status = 500, resp_json = Some ()\<rparr>
   \<and> getTotalSpent paid_store paid_client = 1 / 2
   \<and> (case fetchWithPayment (paid_tool 500) ''t2'' paid_store paid_client
              ''https://api.example.com/b'' sign_0x2 (3 / 2) of
        (h', res) \<Rightarrow>
          res = Inl (PaidToolRetryFailed 500)
          \<and> payment_log h' paid_client =
              payment_log paid_store paid_client
                @ [\<lparr>tool = ''https://api.example.com/b'', cost_usdc = 3 / 2, tx_hash = ''0x2'',
                     timestamp = ''t2'', status = Failure\<rparr>]
          \<and> getTotalSpent h' paid_client = 1 / 2)"
proof -
  have al: "allocated paid_store (records paid_client)"
    by (simp add: paid_store_eq paid_client_eq allocated_def array_at_def)
  have nok: "\<not> ok \<lparr>resp_status = 500, resp_json = Some ()\<rparr>"
    by (simp add: ok_def)
  have tot: "getTotalSpent paid_store paid_client = 1 / 2"
    by (simp add: paid_store_eq paid_client_eq getTotalSpent_def read_payments_def array_at_def
                  payment_at_def map_filter_simps flipped_record_def fadd_def fl_half)
  have f1: "paid_tool 500 ''https://api.example.com/b'' None = Inr \<lparr>resp_status = 402, resp_json = None\<rparr>"
    by (simp add: paid_tool_def)
  have f2: "paid_tool 500 ''https://api.example.com/b'' (Some ''0x2'') = Inr \<lparr>resp_status = 500, resp_json = Some ()\<rparr>"
    by (simp add: paid_tool_def)
  have sg: "sign_0x2 (3 / 2) = Inr ''0x2''"
    by (simp add: sign_0x2_def)
  show ?thesis
    using total_spent_counts_success_only
            [where h = paid_store and c = paid_client and fetch = "paid_tool 500"
               and toolUrl = "''https://api.example.com/b''"
               and firstResponse = "\<lparr>resp_status = 402, resp_json = None\<rparr>"
               and signPayment = sign_0x2 and cost = "3 / 2" and txHash = "''0x2''"
               and retryResponse = "\<lparr>resp_status = 500, resp_json = Some ()\<rparr>"
               and now = "''t2''"]
          al nok tot f1 f2 sg
    by simp
qed

text \<open>
  Claim C8, as stated, fails twice. After successful payments of 250.00000000000003 and
  250 USDC the total spent is 500, not their sum. And when the retry of a signed payment
  gets no response (\<open>fetch\<close> rejects), the error raised is that rejection, not the
  retry-failure error, and the ledger has no record of the attempt.
\<close>

theorem failed_retry_can_leave_no_record:
  "map status (payment_log two_payment_store paid_client) = [Success, Success]
   \<and> sum_list (map cost_usdc (payment_log two_payment_store paid_client)) = 500 + 1 / 2 ^ 45
   \<and> getTotalSpent two_payment_store paid_client = 500
   \<and> snd (fetchWithPayment unreachable_tool ''t2'' paid_store paid_client
             ''https://api.example.com/b'' sign_0x2 (3 / 2)) = Inl (Rejected ''fetch failed'')
   \<and> payment_log (fst (fetchWithPayment unreachable_tool ''t2'' paid_store paid_client
                          ''https://api.example.com/b'' sign_0x2 (3 / 2))) paid_client
       = payment_log paid_store paid_client"
proof -
  have log2: "payment_log two_payment_store paid_client =
      [\<lparr>tool = ''https://api.example.com/a'', cost_usdc = 250 + 1 / 2 ^ 45,
         tx_hash = ''0x1'', timestamp = ''t1'', status = Success\<rparr>,
       \<lparr>tool = ''https://api.example.com/b'', cost_usdc = 250,
         tx_hash = ''0x1'', timestamp = ''t2'', status = Success\<rparr>]"
    by (simp add: payment_log_def getPaymentRecords_def array_copy_def alloc_def
                  two_payment_store_eq paid_client_eq read_payments_def array_at_def
                  payment_at_def map_filter_simps)
  have a: "fadd 0 (250 + 1 / 2 ^ 45) = 250 + 1 / 2 ^ 45"
    by (simp only: fadd_def add_0 fl_near_250)
  have "(250 + 1 / 2 ^ 45) + 250 = (500 + 1 / 2 ^ 45 :: real)"
    by simp
  then have b: "fadd (250 + 1 / 2 ^ 45) 250 = 500"
    by (simp only: fadd_def fl_near_500)
  have "getTotalSpent two_payment_store paid_client = fadd (fadd 0 (250 + 1 / 2 ^ 45)) 250"
    by (simp add: getTotalSpent_def two_payment_store_eq paid_client_eq read_payments_def
                  array_at_def payment_at_def map_filter_simps)
  then have tot: "getTotalSpent two_payment_store paid_client = 500"
    by (simp only: a b)
  have al: "allocated paid_store (records paid_client)"
    by (simp add: paid_store_eq paid_client_eq allocated_def array_at_def)
  have run: "fetchWithPayment unreachable_tool ''t2'' paid_store paid_client
               ''https://api.example.com/b'' sign_0x2 (3 / 2)
             = (paid_store @ [PaymentObj \<lparr>tool = ''https://api.example.com/b'', cost_usdc = 3 / 2,
                                         tx_hash = ''0x2'', timestamp = ''t2'', status = Success\<rparr>],
                Inl (Rejected ''fetch failed''))"
    by (simp add: fetchWithPayment_def unreachable_tool_def sign_0x2_def alloc_def)
  show ?thesis
    using al by (simp add: log2 tot run payment_log_eq allocated_alloc read_payments_alloc)
qed

text \<open>
  Claim C5, as amended. Whatever a caller does to the array returned by
  \<open>getPaymentRecords\<close> or \<open>getReasonCodes\<close> (replacing its contents in any way, also
  with references to objects \<open>news\<close> that the caller has created since), the results of
  later \<open>getPaymentRecords\<close>, \<open>getTotalSpent\<close> and \<open>getReasonCodes\<close> calls are unchanged.
  The entries of the returned array are the ledger's own objects.
\<close>

theorem returned_array_is_a_copy:
  "allocated h (records c) \<and> allocated h (reasonCodes e) \<longrightarrow>
     (case getPaymentRecords h c of
        (h1, r) \<Rightarrow>
          payment_log (mutate (h1 @ news) r (SetContents xs)) c = payment_log h c
          \<and> getTotalSpent (mutate (h1 @ news) r (SetContents xs)) c = getTotalSpent h c
          \<and> reason_log (mutate (h1 @ news) r (SetContents xs)) e = reason_log h e)
     \<and> (case getReasonCodes h e of
          (h1, r) \<Rightarrow>
            payment_log (mutate (h1 @ news) r (SetContents xs)) c = payment_log h c
            \<and> getTotalSpent (mutate (h1 @ news) r (SetContents xs)) c = getTotalSpent h c
            \<and> reason_log (mutate (h1 @ news) r (SetContents xs)) e = reason_log h e)"
proof
  assume al: "allocated h (records c) \<and> allocated h (reasonCodes e)"
  have shape: "\<And>ys. mutate ((h @ [ArrayObj ys]) @ news) (length h) (SetContents xs)
                     = h @ ([ArrayObj xs] @ news)"
    using overwrite_copy [of h _ news] by simp
  have p: "\<And>hs. payment_log (h @ hs) c = payment_log h c"
    using al by (simp add: payment_log_eq allocated_append read_payments_append)
  have q: "\<And>hs. reason_log (h @ hs) e = reason_log h e"
    using al by (simp add: reason_log_eq allocated_append read_reasons_append)
  have t: "\<And>hs. getTotalSpent (h @ hs) c = getTotalSpent h c"
    using al by (simp add: getTotalSpent_def read_payments_append)
  show "(case getPaymentRecords h c of
        (h1, r) \<Rightarrow>
          payment_log (mutate (h1 @ news) r (SetContents xs)) c = payment_log h c
          \<and> getTotalSpent (mutate (h1 @ news) r (SetContents xs)) c = getTotalSpent h c
          \<and> reason_log (mutate (h1 @ news) r (SetContents xs)) e = reason_log h e)
     \<and> (case getReasonCodes h e of
          (h1, r) \<Rightarrow>
            payment_log (mutate (h1 @ news) r (SetContents xs)) c = payment_log h c
            \<and> getTotalSpent (mutate (h1 @ news) r (SetContents xs)) c = getTotalSpent h c
            \<and> reason_log (mutate (h1 @ news) r (SetContents xs)) e = reason_log h e)"
    unfolding getPaymentRecords_def getReasonCodes_def array_copy_def alloc_def
    by (simp only: prod.case shape p q t)
qed

text \<open>
  A client and an engine in one store; the caller pushes \<open>fake_record\<close> onto the returned
  array, as the repository's test does.
\<close>

theorem returned_array_is_a_copy_witness:
  "allocated fresh_engine_store (records paid_client)
   \<and> allocated fresh_engine_store (reasonCodes fresh_engine)
   \<and> snd (getPaymentRecords fresh_engine_store paid_client) = 3
   \<and> getTotalSpent (mutate (fst (getPaymentRecords fresh_engine_store paid_client) @ [PaymentObj fake_record])
                            (snd (getPaymentRecords fresh_engine_store paid_client))
                            (SetContents [1, 4]))
        paid_client = getTotalSpent fresh_engine_store paid_client
   \<and> payment_log (mutate (fst (getPaymentRecords fresh_engine_store paid_client) @ [PaymentObj fake_record])
                          (snd (getPaymentRecords fresh_engine_store paid_client))
                          (SetContents [1, 4]))
        paid_client = payment_log fresh_engine_store paid_client
   \<and> reason_log (mutate (fst (getReasonCodes fresh_engine_store fresh_engine) @ [PaymentObj fake_record])
                         (snd (getReasonCodes fresh_engine_store fresh_engine))
                         (SetContents [1, 4]))
        fresh_engine = reason_log fresh_engine_store fresh_engine"
proof -
  have r: "snd (getPaymentRecords fresh_engine_store paid_client) = 3"
    by (simp add: getPaymentRecords_def array_copy_def alloc_def fresh_engine_store_eq paid_store_eq)
  show ?thesis
    using returned_array_is_a_copy
            [where h = fresh_engine_store and c = paid_client and e = fresh_engine
               and xs = "[1, 4]" and news = "[PaymentObj fake_record]"]
          fresh_allocated r
    by (simp add: case_prod_beta)
qed

text \<open>
  Claim C5, as stated, fails: a caller that sets the status of the first entry of the
  returned array to failed changes \<open>getTotalSpent\<close> from 0.5 to 0.
\<close>

theorem entry_mutation_reaches_ledger:
  "getTotalSpent (fst (getPaymentRecords paid_store paid_client)) paid_client = 1 / 2
   \<and> getTotalSpent
        (mutate (fst (getPaymentRecords paid_store paid_client))
                (snd (getPaymentRecords paid_store paid_client))
                (SetPaymentEntry 0 flipped_record))
        paid_client = 0"
  by (simp add: paid_store_eq paid_client_eq getPaymentRecords_def array_copy_def alloc_def
                array_at_def payment_at_def getTotalSpent_def read_payments_def
                map_filter_simps flipped_record_def fadd_def fl_half)

section \<open>BITE encrypted intents\<close>

text \<open>
  Where \<open>encrypt\<close> returns an intent, the round trip and the failure under another key
  follow from the contract of the library: the cipher opens what it sealed under the same
  key and nonce and refuses it under any other key, hex decoding inverts hex encoding, and
  \<open>JSON.parse\<close> inverts \<open>JSON.stringify\<close> on the strategy.
\<close>

lemma encrypt_Inr:
  assumes "encrypt L uuid nonce now this s = Inr intent"
  shows "\<exists>c t. aes_256_gcm_encrypt L (key this) nonce (JSON_stringify L s) = Some (c, t)
               \<and> encrypted_payload intent = to_hex L c
               \<and> iv intent = to_hex L nonce
               \<and> auth_tag intent = to_hex L t"
  using assms
  by (auto simp: encrypt_def Let_def split: option.splits sum.splits)

lemma decrypt_encrypt_round_trip:
  assumes cipher: "\<And>k n p c t. aes_256_gcm_encrypt L k n p = Some (c, t)
                     \<Longrightarrow> aes_256_gcm_decrypt L k n t c = Some p"
      and hex: "\<And>b. from_hex L (to_hex L b) = b"
      and json: "JSON_parse L (JSON_stringify L s) = Some s"
      and enc: "encrypt L uuid nonce now this s = Inr intent"
  shows "decrypt L this intent = Inr s"
proof -
  obtain c t where
    ct: "aes_256_gcm_encrypt L (key this) nonce (JSON_stringify L s) = Some (c, t)"
        "encrypted_payload intent = to_hex L c" "iv intent = to_hex L nonce"
        "auth_tag intent = to_hex L t"
    using encrypt_Inr [OF enc] by blast
  from cipher [OF ct(1)] show ?thesis
    by (simp add: decrypt_def Let_def ct hex json)
qed

lemma decrypt_under_other_key_fails:
  assumes auth: "\<And>k k' n p c t. aes_256_gcm_encrypt L k n p = Some (c, t) \<Longrightarrow> k' \<noteq> k
                     \<Longrightarrow> aes_256_gcm_decrypt L k' n t c = None"
      and hex: "\<And>b. from_hex L (to_hex L b) = b"
      and enc: "encrypt L uuid nonce now this s = Inr intent"
      and other: "key other \<noteq> key this"
  shows "decrypt L other intent = Inl DecryptionFailed"
proof -
  obtain c t where
    ct: "aes_256_gcm_encrypt L (key this) nonce (JSON_stringify L s) = Some (c, t)"
        "encrypted_payload intent = to_hex L c" "iv intent = to_hex L nonce"
        "auth_tag intent = to_hex L t"
    using encrypt_Inr [OF enc] by blast
  from auth [OF ct(1) other] show ?thesis
    by (simp add: decrypt_def Let_def ct hex)
qed

lemma encrypt_RangeError:
  assumes "aes_256_gcm_encrypt L (key this) nonce (JSON_stringify L s) = Some ct"
      and "\<bar>fadd now (fmul (expires_in_minutes (controls s)) 60000)\<bar> > 8640000000000000"
  shows "encrypt L uuid nonce now this s = Inl RangeError"
  using assms
  by (cases ct) (simp add: encrypt_def Let_def Date_toISOString_def)

text \<open>
  Claim C1 does not hold of the code. The strategy \<open>distantExpiryStrategy\<close> passes the schema
  and \<open>validateStrategy\<close>, but \<open>encrypt\<close> throws a RangeError on it and returns no intent:
  its expiry instant is beyond the range of \<open>Date\<close>, so \<open>toISOString\<close> throws. There is
  nothing for \<open>decrypt\<close> to return the strategy from.
\<close>

theorem encrypt_throws_for_distant_expiry:
  "StrategyDSLSchema_issues distantExpiryStrategy = []
   \<and> valid (validateStrategy distantExpiryStrategy defaultLimits)
   \<and> encrypt stub_library ''00000000-0000-4000-8000-000000000000'' [1] clock_2026
        (new_BiteIntentHandler None [7]) distantExpiryStrategy = Inl RangeError"
proof -
  have v: "valid (validateStrategy distantExpiryStrategy defaultLimits)"
    by (simp add: validateStrategy_def StrategyDSLSchema_safeParse_def distant_expiry_issues Let_def)
       (simp add: distantExpiryStrategy_def sampleStrategy_def defaultLimits_def)
  have m: "fmul (expires_in_minutes (controls distantExpiryStrategy)) 60000
             = 4503599627370496 * 60000"
    by (simp add: fmul_def distantExpiryStrategy_def sampleStrategy_def
                  fl_distant_minutes [simplified])
  have "fadd clock_2026 (4503599627370496 * 60000) > 8640000000000000"
    by (simp only: fadd_def clock_2026_def fl_distant_expiry)
  then have r: "\<bar>fadd clock_2026 (fmul (expires_in_minutes (controls distantExpiryStrategy)) 60000)\<bar>
                  > 8640000000000000"
    by (simp add: m)
  have "encrypt stub_library ''00000000-0000-4000-8000-000000000000'' [1] clock_2026
          (new_BiteIntentHandler None [7]) distantExpiryStrategy = Inl RangeError"
    by (rule encrypt_RangeError [OF _ r]) (simp add: stub_library_def)
  with v distant_expiry_issues show ?thesis by simp
qed

section \<open>Agent workflow\<close>

text \<open>
  Claim C9. When the parser's strategy fails validation, \<open>run\<close> resolves with a receipt
  whose status is aborted, with no payments and no reason codes, \<open>conditions_met\<close> false,
  no execution reference and a total spend of zero, together with a null encrypted intent;
  the run neither encrypts nor invokes the condition checker.
\<close>

theorem failed_validation_aborts_run:
  "parse (http_post w) (parser this) (run_parser_input this userPrompt) = Inr po
   \<and> \<not> valid (validateStrategy (strategy_dsl po) (run_limits this))
   \<longrightarrow> (case run w this userPrompt checkConditions of
          (trace, res) \<Rightarrow>
            (\<exists>r. res = Inr r
                \<and> receipt_status (receipt r) = RAborted
                \<and> payments (receipt r) = []
                \<and> reason_codes (receipt r) = []
                \<and> conditions_met (receipt r) = False
                \<and> execution_tx_hash (receipt r) = None
                \<and> total_spend_usdc (receipt r) = 0
                \<and> encryptedIntent r = None)
            \<and> CallEncrypt \<notin> set trace
            \<and> CallCheckConditions \<notin> set trace)"
  by (auto simp: run_def Let_def buildReceipt_def split: option.splits bool.splits)

text \<open>The strategy of the tests with the pair DOGE/USDC, which is not in the allowlist.\<close>

theorem failed_validation_aborts_run_witness:
  "parse (http_post (stub_world (parserOutputFor dogeStrategy) (9 / 10)))
         (parser (new_AgentWorkflow (stub_world (parserOutputFor dogeStrategy) (9 / 10)) defaultConfig None))
         (run_parser_input
            (new_AgentWorkflow (stub_world (parserOutputFor dogeStrategy) (9 / 10)) defaultConfig None)
            ''Buy DOGE'')
     = Inr (parserOutputFor dogeStrategy)
   \<and> \<not> valid (validateStrategy (strategy_dsl (parserOutputFor dogeStrategy))
                (run_limits
                   (new_AgentWorkflow (stub_world (parserOutputFor dogeStrategy) (9 / 10))
                      defaultConfig None)))
   \<and> CallEncrypt \<notin> set (fst (run (stub_world (parserOutputFor dogeStrategy) (9 / 10))
               (new_AgentWorkflow (stub_world (parserOutputFor dogeStrategy) (9 / 10)) defaultConfig None)
               ''Buy DOGE'' (\<lambda>strat. Inr True)))
   \<and> CallCheckConditions \<notin> set (fst (run (stub_world (parserOutputFor dogeStrategy) (9 / 10))
               (new_AgentWorkflow (stub_world (parserOutputFor dogeStrategy) (9 / 10)) defaultConfig None)
               ''Buy DOGE'' (\<lambda>strat. Inr True)))
   \<and> map_sum id (\<lambda>r. (receipt_status (receipt r), encryptedIntent r))
        (snd (run (stub_world (parserOutputFor dogeStrategy) (9 / 10))
               (new_AgentWorkflow (stub_world (parserOutputFor dogeStrategy) (9 / 10)) defaultConfig None)
               ''Buy DOGE'' (\<lambda>strat. Inr True)))
      = Inr (RAborted, None)"
proof -
  have inv: "\<not> valid (validateStrategy (strategy_dsl (parserOutputFor dogeStrategy))
                (run_limits
                   (new_AgentWorkflow (stub_world (parserOutputFor dogeStrategy) (9 / 10))
                      defaultConfig None)))"
    using doge_invalid by (simp add: parserOutputFor_def)
  show ?thesis
    using failed_validation_aborts_run
            [where w = "stub_world (parserOutputFor dogeStrategy) (9 / 10)"
               and this = "new_AgentWorkflow (stub_world (parserOutputFor dogeStrategy) (9 / 10))
                             defaultConfig None"
               and userPrompt = "''Buy DOGE''" and po = "parserOutputFor dogeStrategy"
               and checkConditions = "\<lambda>strat. Inr True"]
          doge_parse inv
    by (auto simp: case_prod_beta)
qed

section \<open>Trading dashboard\<close>

text \<open>
  Claim C4 does not hold of the code. In the scenario \<open>trade_submitted\<close>,
  \<open>trade_cancelled\<close>, \<open>trade_workflow\<close>, \<open>trade_settled\<close>, the trade is monitoring after
  \<open>submitTrade\<close>; \<open>cancelTrade\<close> returns true and sets it to expired, yet the activation
  of \<open>startMonitoring\<close> stays suspended on the workflow run; that run decrypts and executes,
  and the resumed activation then sets the cancelled trade to executed.
\<close>

theorem cancelled_trade_still_executes:
  "status_of trade_submitted ''trade_1'' = Some Monitoring
   \<and> snd trade_cancelled = True
   \<and> status_of (fst trade_cancelled) ''trade_1'' = Some Expired
   \<and> awaiting (fst trade_cancelled) = [(''trade_1'', ''Buy ETH'', ''http://example.com/parse'')]
   \<and> CallDecrypt \<in> set (fst trade_workflow)
   \<and> CallExecute \<in> set (fst trade_workflow)
   \<and> status_of trade_settled ''trade_1'' = Some Executed"
proof -
  from trade_workflow_eval obtain r where
    r: "snd trade_workflow = Inr r" "receipt_status (receipt r) = RExecuted"
    by (cases "snd trade_workflow") auto
  have settled: "status_of trade_settled ''trade_1'' = Some Executed"
    by (simp add: status_of_def getTradeStatus_def trade_settled_def startMonitoring_resume_def
                  r Let_def set_trade_result_def set_trade_status_def stopMonitoring_def
                  trade_cancelled_eval)
  show ?thesis
    using settled trade_workflow_eval
    by (simp add: status_of_def getTradeStatus_def trade_submitted_eval trade_cancelled_eval)
qed

end
